theory Spec2Isabelle
  imports Main
begin

section \<open>Python strings and the regular expressions of the source\<close>

text \<open>
  A Python \<^verbatim>\<open>str\<close> is a sequence of Unicode code points; it is modelled as a list of
  natural numbers, so that lengths, \<^verbatim>\<open>strip\<close> and the character classes count what Python
  counts. \<open>S\<close> turns an ASCII literal into such a string.
\<close>

type_synonym str = "nat list"

definition S :: "string \<Rightarrow> str" where
  "S = map of_char"

text \<open>The exceptions the program can raise, as values.\<close>

datatype exn =
    IntegrityError
  | ParserException str str
  | AttributeError
  | KeyError
  | TypeError
  | IndexError
  | MultipleObjectsReturned
  | JSONDecodeError
  | TransportError

text \<open>
  The values that flow through the program come from decoded JSON payloads: \<^verbatim>\<open>None\<close>,
  booleans, integers, strings, lists and dictionaries (in insertion order).
\<close>

datatype json =
    JNull
  | JBool bool
  | JInt int
  | JStr str
  | JList "json list"
  | JObj "(str \<times> json) list"

text \<open>
  Tables of the Python runtime that the source consults through \<^verbatim>\<open>html.unescape\<close>,
  \<^verbatim>\<open>\w\<close>, \<^verbatim>\<open>\d\<close>, \<^verbatim>\<open>int\<close> and string formatting. They are not part of the
  repository; every definition that depends on them takes them as the parameter \<open>rt\<close>:
  the named character references of \<^verbatim>\<open>html.entities.html5\<close>, the alphanumeric code points
  above ASCII, the decimal digits above ASCII with their values, \<^verbatim>\<open>repr\<close> of a list or
  dictionary, and \<^verbatim>\<open>json.loads\<close> (\<open>None\<close> where it raises).
\<close>

record pytables =
  html5 :: "str \<Rightarrow> str option"
  uni_alnum :: "nat \<Rightarrow> bool"
  uni_decimal :: "nat \<Rightarrow> nat option"
  py_repr :: "json \<Rightarrow> str"
  json_loads :: "str \<Rightarrow> json option"

text \<open>\<^verbatim>\<open>str.isspace\<close>: the code points \<^verbatim>\<open>str.strip()\<close> removes.\<close>

definition isspace :: "nat \<Rightarrow> bool" where
  "isspace c \<longleftrightarrow>
     (9 \<le> c \<and> c \<le> 13) \<or> (28 \<le> c \<and> c \<le> 32) \<or> c = 133 \<or> c = 160 \<or> c = 5760
     \<or> (8192 \<le> c \<and> c \<le> 8202) \<or> c = 8232 \<or> c = 8233 \<or> c = 8239 \<or> c = 8287 \<or> c = 12288"

definition strip :: "str \<Rightarrow> str" where
  "strip s = rev (dropWhile isspace (rev (dropWhile isspace s)))"

definition ascii_alnum :: "nat \<Rightarrow> bool" where
  "ascii_alnum c \<longleftrightarrow> (48 \<le> c \<and> c \<le> 57) \<or> (65 \<le> c \<and> c \<le> 90) \<or> (97 \<le> c \<and> c \<le> 122)"

text \<open>\<^verbatim>\<open>\w\<close> and \<^verbatim>\<open>\d\<close> of a \<^verbatim>\<open>str\<close> pattern.\<close>

definition is_word :: "pytables \<Rightarrow> nat \<Rightarrow> bool" where
  "is_word rt c \<longleftrightarrow> c = 95 \<or> ascii_alnum c \<or> (128 \<le> c \<and> uni_alnum rt c)"

definition is_digit :: "pytables \<Rightarrow> nat \<Rightarrow> bool" where
  "is_digit rt c \<longleftrightarrow> (48 \<le> c \<and> c \<le> 57) \<or> (128 \<le> c \<and> uni_decimal rt c \<noteq> None)"

text \<open>
  A literal of a pattern compiled with \<^verbatim>\<open>(?i)\<close>: a lower-case ASCII letter also matches
  its upper-case form and the code points whose lower case it is (U+0130 and U+0131 for
  \<^verbatim>\<open>i\<close>, U+212A for \<^verbatim>\<open>k\<close>, U+017F for \<^verbatim>\<open>s\<close>).
\<close>

definition ieq :: "nat \<Rightarrow> nat \<Rightarrow> bool" where
  "ieq c x \<longleftrightarrow>
     x = c \<or> (97 \<le> c \<and> c \<le> 122 \<and> x + 32 = c)
     \<or> (c = 105 \<and> (x = 304 \<or> x = 305)) \<or> (c = 107 \<and> x = 8490) \<or> (c = 115 \<and> x = 383)"

text \<open>
  The fragment of \<^verbatim>\<open>re\<close> syntax the source uses. Every repetition in the source is over
  a single character class, so \<open>Rep p lo hi\<close> is the greedy \<^verbatim>\<open>[p]{lo,hi}\<close> (\<open>hi = None\<close>
  for unbounded); \<open>Eol\<close> is \<^verbatim>\<open>$\<close>, which also matches before a final newline.
\<close>

datatype rx =
    Lit nat
  | LitI nat
  | Cls "nat \<Rightarrow> bool"
  | Rep "nat \<Rightarrow> bool" nat "nat option"
  | Seq rx rx
  | Alt rx rx
  | Opt rx
  | Grp nat rx
  | Eol

type_synonym caps = "nat \<Rightarrow> str option"

text \<open>
  Backtracking matching with a continuation: the longest repetition is tried first, the
  left alternative before the right one, as \<^verbatim>\<open>re\<close> does.
\<close>

fun rep_try :: "(nat \<Rightarrow> bool) \<Rightarrow> nat \<Rightarrow> nat option \<Rightarrow> str \<Rightarrow> (str \<Rightarrow> 'r option) \<Rightarrow> 'r option" where
  "rep_try p lo hi [] k = (if lo = 0 then k [] else None)"
| "rep_try p lo hi (c # cs) k =
     (if p c \<and> hi \<noteq> Some 0 then
        (case rep_try p (lo - 1) (map_option (\<lambda>h. h - 1) hi) cs k of
           Some r \<Rightarrow> Some r
         | None \<Rightarrow> if lo = 0 then k (c # cs) else None)
      else if lo = 0 then k (c # cs) else None)"

fun rx_m :: "rx \<Rightarrow> str \<Rightarrow> caps \<Rightarrow> (str \<Rightarrow> caps \<Rightarrow> 'r option) \<Rightarrow> 'r option" where
  "rx_m (Lit c) s g k = (case s of [] \<Rightarrow> None | x # xs \<Rightarrow> if x = c then k xs g else None)"
| "rx_m (LitI c) s g k = (case s of [] \<Rightarrow> None | x # xs \<Rightarrow> if ieq c x then k xs g else None)"
| "rx_m (Cls p) s g k = (case s of [] \<Rightarrow> None | x # xs \<Rightarrow> if p x then k xs g else None)"
| "rx_m (Rep p lo hi) s g k = rep_try p lo hi s (\<lambda>r. k r g)"
| "rx_m (Seq a b) s g k = rx_m a s g (\<lambda>r g'. rx_m b r g' k)"
| "rx_m (Alt a b) s g k =
     (case rx_m a s g k of Some r \<Rightarrow> Some r | None \<Rightarrow> rx_m b s g k)"
| "rx_m (Opt a) s g k =
     (case rx_m a s g k of Some r \<Rightarrow> Some r | None \<Rightarrow> k s g)"
| "rx_m (Grp i a) s g k =
     rx_m a s g (\<lambda>r g'. k r (g'(i \<mapsto> take (length s - length r) s)))"
| "rx_m Eol s g k = (if s = [] \<or> s = [10] then k s g else None)"

text \<open>A match at the start of \<open>s\<close>: the unconsumed rest and the groups.\<close>

definition rx_match_at :: "rx \<Rightarrow> str \<Rightarrow> (str \<times> caps) option" where
  "rx_match_at r s = rx_m r s (\<lambda>_. None) (\<lambda>rest g. Some (rest, g))"

text \<open>\<^verbatim>\<open>re.search\<close>: the leftmost match; the result is group 0 and the numbered groups.\<close>

fun re_search :: "rx \<Rightarrow> str \<Rightarrow> (str \<times> caps) option" where
  "re_search r [] =
     (case rx_match_at r [] of Some (rest, g) \<Rightarrow> Some ([], g) | None \<Rightarrow> None)"
| "re_search r (c # cs) =
     (case rx_match_at r (c # cs) of
        Some (rest, g) \<Rightarrow> Some (take (length (c # cs) - length rest) (c # cs), g)
      | None \<Rightarrow> re_search r cs)"

text \<open>
  \<^verbatim>\<open>re.sub\<close> with a function of the match as replacement. Every pattern the source
  substitutes consumes at least one character; after an empty match the next character is
  copied.
\<close>

function re_sub :: "rx \<Rightarrow> (str \<times> caps \<Rightarrow> str) \<Rightarrow> str \<Rightarrow> str" where
  "re_sub r f s =
     (case rx_match_at r s of
        Some (rest, g) \<Rightarrow>
          if length rest < length s then f (take (length s - length rest) s, g) @ re_sub r f rest
          else (case s of [] \<Rightarrow> f ([], g) | c # cs \<Rightarrow> f ([], g) @ c # re_sub r f cs)
      | None \<Rightarrow> (case s of [] \<Rightarrow> [] | c # cs \<Rightarrow> c # re_sub r f cs))"
  by pat_completeness auto
termination
  by (relation "measure (\<lambda>(r, f, s). length s)") auto

declare re_sub.simps [simp del]

section \<open>The library function \<^verbatim>\<open>html.unescape\<close>\<close>

definition invalid_charrefs :: "(nat \<times> nat) list" where
  "invalid_charrefs =
     [(0, 65533), (13, 13), (128, 8364), (129, 129), (130, 8218), (131, 402), (132, 8222),
      (133, 8230), (134, 8224), (135, 8225), (136, 710), (137, 8240), (138, 352), (139, 8249),
      (140, 338), (141, 141), (142, 381), (143, 143), (144, 144), (145, 8216), (146, 8217),
      (147, 8220), (148, 8221), (149, 8226), (150, 8211), (151, 8212), (152, 732), (153, 8482),
      (154, 353), (155, 8250), (156, 339), (157, 157), (158, 382), (159, 376)]"

definition invalid_codepoint :: "nat \<Rightarrow> bool" where
  "invalid_codepoint n \<longleftrightarrow>
     (1 \<le> n \<and> n \<le> 8) \<or> (14 \<le> n \<and> n \<le> 31) \<or> (127 \<le> n \<and> n \<le> 159)
     \<or> (64976 \<le> n \<and> n \<le> 65007) \<or> n = 11
     \<or> (n \<le> 1114111 \<and> (n mod 65536 = 65534 \<or> n mod 65536 = 65535))"

definition hex_digit :: "nat \<Rightarrow> bool" where
  "hex_digit c \<longleftrightarrow> (48 \<le> c \<and> c \<le> 57) \<or> (65 \<le> c \<and> c \<le> 70) \<or> (97 \<le> c \<and> c \<le> 102)"

definition hex_val :: "nat \<Rightarrow> nat" where
  "hex_val c = (if c \<le> 57 then c - 48 else if c \<le> 70 then c - 55 else c - 87)"

text \<open>\<^verbatim>\<open>int(s, base)\<close> on a string of digits of that base.\<close>

definition int_of_digits :: "nat \<Rightarrow> (nat \<Rightarrow> nat) \<Rightarrow> str \<Rightarrow> nat" where
  "int_of_digits base val s = foldl (\<lambda>acc c. acc * base + val c) 0 s"

text \<open>\<^verbatim>\<open>s.rstrip(';')\<close>\<close>

definition rstrip_semi :: "str \<Rightarrow> str" where
  "rstrip_semi s = rev (dropWhile (\<lambda>c. c = 59) (rev s))"

text \<open>
  \<^verbatim>\<open>_charref = &(#[0-9]+;?|#[xX][0-9a-fA-F]+;?|[^\t\n\f <&#;]{1,32};?)\<close>
\<close>

definition charref :: rx where
  "charref =
     Seq (Lit 38)
       (Grp 1
          (Alt (Seq (Lit 35) (Seq (Rep (\<lambda>c. 48 \<le> c \<and> c \<le> 57) 1 None) (Opt (Lit 59))))
          (Alt (Seq (Lit 35) (Seq (Cls (\<lambda>c. c = 120 \<or> c = 88))
                  (Seq (Rep hex_digit 1 None) (Opt (Lit 59)))))
               (Seq (Rep (\<lambda>c. c \<notin> {9, 10, 12, 32, 60, 38, 35, 59}) 1 (Some 32))
                  (Opt (Lit 59))))))"

text \<open>
  The loop \<^verbatim>\<open>for x in range(len(s)-1, 1, -1)\<close> of \<^verbatim>\<open>_replace_charref\<close>: the longest
  proper prefix of at least two characters that is a name of the table, else \<^verbatim>\<open>'&' + s\<close>.
\<close>

fun named_prefix :: "pytables \<Rightarrow> str \<Rightarrow> nat \<Rightarrow> str" where
  "named_prefix rt s 0 = 38 # s"
| "named_prefix rt s (Suc x) =
     (if Suc x \<le> 1 then 38 # s
      else (case html5 rt (take (Suc x) s) of
              Some v \<Rightarrow> v @ drop (Suc x) s
            | None \<Rightarrow> named_prefix rt s x))"

definition replace_charref :: "pytables \<Rightarrow> str \<Rightarrow> str" where
  "replace_charref rt s =
     (if hd s = 35 then
        (let num = (if hd (tl s) = 120 \<or> hd (tl s) = 88
                    then int_of_digits 16 hex_val (rstrip_semi (drop 2 s))
                    else int_of_digits 10 (\<lambda>c. c - 48) (rstrip_semi (drop 1 s)))
         in case map_of invalid_charrefs num of
              Some c \<Rightarrow> [c]
            | None \<Rightarrow>
                if (55296 \<le> num \<and> num \<le> 57343) \<or> num > 1114111 then [65533]
                else if invalid_codepoint num then []
                else [num])
      else (case html5 rt s of
              Some v \<Rightarrow> v
            | None \<Rightarrow> named_prefix rt s (length s - 1)))"

definition html_unescape :: "pytables \<Rightarrow> str \<Rightarrow> str" where
  "html_unescape rt s =
     (if 38 \<notin> set s then s
      else re_sub charref (\<lambda>(m, g). replace_charref rt (the (g 1))) s)"

section \<open>Text helpers of the source\<close>

text \<open>The reserved characters of \<^verbatim>\<open>escape_markdown\<close>: \<^verbatim>\<open>[_*\[\]()~`>\#\+\-=|{}\.!\\]\<close>.\<close>

definition reserved :: "nat \<Rightarrow> bool" where
  "reserved c \<longleftrightarrow> c \<in> set (S ''_*[]()~`>#+-=|{}.!'') \<or> c = 92"

text \<open>
  \<^verbatim>\<open>escape_markdown(text)\<close> on a string: the substitution
  \<^verbatim>\<open>re.sub(r"([...])", r"\\\1", html.unescape(text))\<close> puts a backslash (92) before group 1.
\<close>

definition escape_markdown :: "pytables \<Rightarrow> str \<Rightarrow> str" where
  "escape_markdown rt text =
     (if text \<noteq> [] then
        re_sub (Grp 1 (Cls reserved)) (\<lambda>(m, g). 92 # the (g 1)) (html_unescape rt text)
      else [])"

text \<open>
  \<^verbatim>\<open>shrink_line(text)\<close> on a string:
  \<^verbatim>\<open>re.sub(r"\n*\n", r"\n", re.sub(r"\r\n", r"\n", text.strip()))\<close>.
\<close>

definition shrink_line :: "str \<Rightarrow> str" where
  "shrink_line text =
     (if text \<noteq> [] then
        re_sub (Seq (Rep (\<lambda>c. c = 10) 0 None) (Lit 10)) (\<lambda>_. [10])
          (re_sub (Seq (Lit 13) (Lit 10)) (\<lambda>_. [10]) (strip text))
      else [])"

text \<open>
  \<^verbatim>\<open>get_filename(url)\<close> of \<^verbatim>\<open>feed.mediafilename\<close>, with the pattern
  \<^verbatim>\<open>\/([^\/]*\.\w{3,4})(?:$|\?)\<close>.
\<close>

definition filename_rx :: "pytables \<Rightarrow> rx" where
  "filename_rx rt =
     Seq (Lit 47)
       (Seq (Grp 1 (Seq (Rep (\<lambda>c. c \<noteq> 47) 0 None) (Seq (Lit 46) (Rep (is_word rt) 3 (Some 4)))))
            (Alt Eol (Lit 63)))"

definition get_filename :: "pytables \<Rightarrow> str \<Rightarrow> str" where
  "get_filename rt url =
     (case re_search (filename_rx rt) url of
        Some (m, g) \<Rightarrow> the (g 1)
      | None \<Rightarrow> [])"

section \<open>Notions used to state the properties of the text helpers\<close>


text \<open>\<^verbatim>\<open>s.endswith("\n")\<close>\<close>

definition ends_with_newline :: "str \<Rightarrow> bool" where
  "ends_with_newline s \<longleftrightarrow> s \<noteq> [] \<and> last s = 10"


text \<open>What the substitution of \<^verbatim>\<open>\r\n\<close> by \<^verbatim>\<open>\n\<close> computes.\<close>

fun sub_crlf :: "str \<Rightarrow> str" where
  "sub_crlf [] = []"
| "sub_crlf [c] = [c]"
| "sub_crlf (c # d # cs) = (if c = 13 \<and> d = 10 then 10 # sub_crlf cs else c # sub_crlf (d # cs))"

definition nl_rx :: rx where
  "nl_rx = Seq (Rep (\<lambda>c. c = 10) 0 None) (Lit 10)"



text \<open>
  Four \<^verbatim>\<open>card\<close> texts of status updates, as code points, and what \<^verbatim>\<open>json.loads\<close>
  makes of them: \<^verbatim>\<open>{"aid": 7}\<close>, \<^verbatim>\<open>{"item": {"pictures": []}, "user": {}}\<close>,
  \<^verbatim>\<open>{"aid": 7, "new_desc": " hi"}\<close> and \<^verbatim>\<open>{}\<close>.
\<close>

definition card7_text :: str where
  "card7_text = [123, 34, 97, 105, 100, 34, 58, 32, 55, 125]"

definition card2_text :: str where
  "card2_text =
     [123, 34, 105, 116, 101, 109, 34, 58, 32, 123, 34, 112, 105, 99, 116, 117, 114, 101, 115, 34, 58, 32, 91, 93, 125, 44, 32, 34, 117, 115, 101, 114, 34, 58, 32, 123, 125, 125]"

definition card_hi_text :: str where
  "card_hi_text =
     [123, 34, 97, 105, 100, 34, 58, 32, 55, 44, 32, 34, 110, 101, 119, 95, 100, 101, 115, 99, 34,
      58, 32, 34, 32, 104, 105, 34, 125]"

definition sample_loads :: "str \<Rightarrow> json option" where
  "sample_loads =
     map_of [(card7_text, JObj [(S ''aid'', JInt 7)]),
             (card2_text, JObj [(S ''item'', JObj [(S ''pictures'', JList [])]), (S ''user'', JObj [])]),
             (card_hi_text, JObj [(S ''aid'', JInt 7), (S ''new_desc'', JStr (S '' hi''))]),
             ([123, 125], JObj [])]"

text \<open>
  A sample of the runtime tables, used to evaluate the definitions on concrete ASCII
  inputs: four entries of \<^verbatim>\<open>html.entities.html5\<close> (\<^verbatim>\<open>gt;\<close>, \<^verbatim>\<open>gt\<close>, \<^verbatim>\<open>lt;\<close>,
  \<^verbatim>\<open>amp;\<close>), no code point above ASCII, and \<^verbatim>\<open>json.loads\<close> on the four card texts.
\<close>

definition sample_tables :: pytables where
  "sample_tables =
     \<lparr>html5 = map_of [(S ''gt;'', S ''>''), (S ''gt'', S ''>''), (S ''lt;'', S ''<''),
                       (S ''amp;'', S ''&'')],
      uni_alnum = (\<lambda>_. False),
      uni_decimal = (\<lambda>_. None),
      py_repr = (\<lambda>_. S ''...''),
      json_loads = sample_loads\<rparr>"

section \<open>Python values\<close>

definition truthy :: "json \<Rightarrow> bool" where
  "truthy v =
     (case v of JNull \<Rightarrow> False | JBool b \<Rightarrow> b | JInt i \<Rightarrow> i \<noteq> 0 | JStr s \<Rightarrow> s \<noteq> []
      | JList xs \<Rightarrow> xs \<noteq> [] | JObj kv \<Rightarrow> kv \<noteq> [])"

text \<open>Raising is \<open>Inl\<close>; \<open>ebind\<close> sequences two steps, \<open>emap\<close> is a list comprehension.\<close>

definition ebind :: "exn + 'a \<Rightarrow> ('a \<Rightarrow> exn + 'b) \<Rightarrow> exn + 'b" where
  "ebind m f = (case m of Inl e \<Rightarrow> Inl e | Inr x \<Rightarrow> f x)"

fun emap :: "('a \<Rightarrow> exn + 'b) \<Rightarrow> 'a list \<Rightarrow> exn + 'b list" where
  "emap f [] = Inr []"
| "emap f (x # xs) = ebind (f x) (\<lambda>y. ebind (emap f xs) (\<lambda>ys. Inr (y # ys)))"

text \<open>\<^verbatim>\<open>v.get(k)\<close>, \<^verbatim>\<open>v.get(k, d)\<close> and \<^verbatim>\<open>v[k]\<close> with a string key.\<close>

definition py_get_d :: "json \<Rightarrow> str \<Rightarrow> json \<Rightarrow> exn + json" where
  "py_get_d v k d =
     (case v of JObj kv \<Rightarrow> Inr (case map_of kv k of Some x \<Rightarrow> x | None \<Rightarrow> d)
      | _ \<Rightarrow> Inl AttributeError)"

definition py_get :: "json \<Rightarrow> str \<Rightarrow> exn + json" where
  "py_get v k = py_get_d v k JNull"

definition py_item :: "json \<Rightarrow> str \<Rightarrow> exn + json" where
  "py_item v k =
     (case v of JObj kv \<Rightarrow> (case map_of kv k of Some x \<Rightarrow> Inr x | None \<Rightarrow> Inl KeyError)
      | _ \<Rightarrow> Inl TypeError)"

text \<open>\<^verbatim>\<open>v[0]\<close> and \<^verbatim>\<open>v[-1]\<close>.\<close>

definition py_first :: "json \<Rightarrow> exn + json" where
  "py_first v =
     (case v of JList xs \<Rightarrow> (case xs of [] \<Rightarrow> Inl IndexError | x # _ \<Rightarrow> Inr x)
      | JStr s \<Rightarrow> (case s of [] \<Rightarrow> Inl IndexError | c # _ \<Rightarrow> Inr (JStr [c]))
      | JObj kv \<Rightarrow> Inl KeyError
      | _ \<Rightarrow> Inl TypeError)"

definition py_last :: "json \<Rightarrow> exn + json" where
  "py_last v =
     (case v of JList xs \<Rightarrow> (if xs = [] then Inl IndexError else Inr (last xs))
      | JStr s \<Rightarrow> (if s = [] then Inl IndexError else Inr (JStr [last s]))
      | JObj kv \<Rightarrow> Inl KeyError
      | _ \<Rightarrow> Inl TypeError)"

text \<open>Decimal digits of a number, and \<^verbatim>\<open>str(v)\<close> as an f-string inserts it.\<close>

function dec :: "nat \<Rightarrow> str" where
  "dec n = (if n < 10 then [48 + n] else dec (n div 10) @ [48 + n mod 10])"
  by pat_completeness auto
termination
  by (relation "measure id") auto

declare dec.simps [simp del]

definition py_str :: "pytables \<Rightarrow> json \<Rightarrow> str" where
  "py_str rt v =
     (case v of JNull \<Rightarrow> S ''None''
      | JBool b \<Rightarrow> (if b then S ''True'' else S ''False'')
      | JInt i \<Rightarrow> (if i < 0 then 45 # dec (nat (- i)) else dec (nat i))
      | JStr s \<Rightarrow> s
      | _ \<Rightarrow> py_repr rt v)"

text \<open>
  \<^verbatim>\<open>escape_markdown\<close> and \<^verbatim>\<open>shrink_line\<close> on any value: a false value gives the empty
  string, a true value that is no string raises (in \<^verbatim>\<open>re.sub\<close>, in \<^verbatim>\<open>.strip\<close>).
\<close>

definition escape_markdown_val :: "pytables \<Rightarrow> json \<Rightarrow> exn + str" where
  "escape_markdown_val rt v =
     (case v of JStr s \<Rightarrow> Inr (escape_markdown rt s)
      | _ \<Rightarrow> if truthy v then Inl TypeError else Inr [])"

definition shrink_line_val :: "json \<Rightarrow> exn + str" where
  "shrink_line_val v =
     (case v of JStr s \<Rightarrow> Inr (shrink_line s)
      | _ \<Rightarrow> if truthy v then Inl AttributeError else Inr [])"

section \<open>The class \<^verbatim>\<open>feed\<close>\<close>

text \<open>
  The attributes of a \<^verbatim>\<open>feed\<close> object. \<open>content_raw\<close> is \<^verbatim>\<open>__content\<close>, \<open>mediaurls_raw\<close>
  is \<^verbatim>\<open>__mediaurls\<close>; \<open>replycontent\<close> is \<open>None\<close> while the attribute is not set, and holds
  what \<^verbatim>\<open>reply_parser\<close> returned otherwise: a payload or an exception object.
\<close>

record feed =
  rawurl :: str
  user :: json
  uid :: json
  content_raw :: json
  mediaurls_raw :: "json list"
  mediaraws :: json
  mediatype :: json
  mediathumb :: json
  mediaduration :: json
  mediatitle :: json
  extra_markdown :: json
  replycontent :: "(exn + json) option"

text \<open>\<^verbatim>\<open>feed(rawurl)\<close>: the class attributes are the defaults.\<close>

definition new_feed :: "str \<Rightarrow> feed" where
  "new_feed url =
     \<lparr>rawurl = url, user = JStr [], uid = JStr [], content_raw = JStr [], mediaurls_raw = [],
      mediaraws = JBool False, mediatype = JStr [], mediathumb = JStr [], mediaduration = JInt 0,
      mediatitle = JStr [], extra_markdown = JStr [], replycontent = None\<rparr>"

definition make_user_markdown :: "pytables \<Rightarrow> json \<Rightarrow> json \<Rightarrow> exn + str" where
  "make_user_markdown rt usr ui =
     (if truthy usr \<and> truthy ui then
        ebind (escape_markdown_val rt usr) (\<lambda>u.
          Inr (S ''[@'' @ u @ S ''](https://space.bilibili.com/'' @ py_str rt ui @ S '')''))
      else Inr [])"

definition feed_user_markdown :: "pytables \<Rightarrow> 'a feed_scheme \<Rightarrow> exn + str" where
  "feed_user_markdown rt f = make_user_markdown rt (user f) (uid f)"

definition feed_content :: "'a feed_scheme \<Rightarrow> exn + str" where
  "feed_content f = shrink_line_val (content_raw f)"

text \<open>The body of \<^verbatim>\<open>content_markdown\<close>, given the value of \<^verbatim>\<open>self.content\<close>.\<close>

definition render_content_markdown :: "pytables \<Rightarrow> str \<Rightarrow> str" where
  "render_content_markdown rt c =
     (let content_markdown = escape_markdown rt c;
          content_markdown = (if \<not> ends_with_newline content_markdown
                              then content_markdown @ [10] else content_markdown)
      in shrink_line content_markdown)"

definition feed_content_markdown :: "pytables \<Rightarrow> 'a feed_scheme \<Rightarrow> exn + str" where
  "feed_content_markdown rt f =
     ebind (feed_content f) (\<lambda>c. Inr (render_content_markdown rt c))"

definition feed_has_comment :: "'a feed_scheme \<Rightarrow> exn + bool" where
  "feed_has_comment f =
     (case replycontent f of
        None \<Rightarrow> Inr False
      | Some (Inl err) \<Rightarrow> Inl AttributeError
      | Some (Inr r) \<Rightarrow> ebind (py_get r (S ''data'')) (\<lambda>d. Inr (truthy d)))"

text \<open>
  The loop \<^verbatim>\<open>for item in top.values(): if item: comment += ...\<close> of \<^verbatim>\<open>comment\<close> and
  \<^verbatim>\<open>comment_markdown\<close>, with the line that an item adds as a parameter; then the body of
  both properties, given the value of \<^verbatim>\<open>self.has_comment\<close>.
\<close>

fun top_lines :: "(json \<Rightarrow> exn + str) \<Rightarrow> json list \<Rightarrow> str \<Rightarrow> exn + str" where
  "top_lines line [] acc = Inr acc"
| "top_lines line (item # items) acc =
     (if truthy item then ebind (line item) (\<lambda>l. top_lines line items (acc @ l))
      else top_lines line items acc)"

definition top_comments_if :: "(json \<Rightarrow> exn + str) \<Rightarrow> bool \<Rightarrow> 'a feed_scheme \<Rightarrow> exn + str" where
  "top_comments_if line has f =
     (if has then
        (case replycontent f of
           Some (Inr r) \<Rightarrow>
             ebind (py_item r (S ''data'')) (\<lambda>d.
             ebind (py_get d (S ''top'')) (\<lambda>top.
               if truthy top then
                 (case top of
                    JObj kv \<Rightarrow> ebind (top_lines line (map snd kv) []) (\<lambda>c. Inr (shrink_line c))
                  | _ \<Rightarrow> Inl AttributeError)
               else Inr (shrink_line [])))
         | _ \<Rightarrow> Inl AttributeError)
      else Inr (shrink_line []))"

definition top_comments :: "(json \<Rightarrow> exn + str) \<Rightarrow> 'a feed_scheme \<Rightarrow> exn + str" where
  "top_comments line f = ebind (feed_has_comment f) (\<lambda>has. top_comments_if line has f)"

text \<open>The pin emoji U+1F51D is the code point 128285.\<close>

definition comment_line :: "pytables \<Rightarrow> json \<Rightarrow> exn + str" where
  "comment_line rt item =
     ebind (py_item item (S ''member'')) (\<lambda>m.
     ebind (py_item m (S ''uname'')) (\<lambda>uname.
     ebind (py_item item (S ''content'')) (\<lambda>c.
     ebind (py_item c (S ''message'')) (\<lambda>message.
       Inr (128285 # S ''> @'' @ py_str rt uname @ S '':'' @ [10] @ py_str rt message @ [10])))))"

definition feed_comment :: "pytables \<Rightarrow> 'a feed_scheme \<Rightarrow> exn + str" where
  "feed_comment rt f = top_comments (comment_line rt) f"

definition comment_markdown_line :: "pytables \<Rightarrow> json \<Rightarrow> exn + str" where
  "comment_markdown_line rt item =
     ebind (py_item item (S ''member'')) (\<lambda>m.
     ebind (py_item m (S ''uname'')) (\<lambda>uname.
     ebind (py_item item (S ''member'')) (\<lambda>m'.
     ebind (py_item m' (S ''mid'')) (\<lambda>mid.
     ebind (make_user_markdown rt uname mid) (\<lambda>um.
     ebind (py_item item (S ''content'')) (\<lambda>c.
     ebind (py_item c (S ''message'')) (\<lambda>message.
     ebind (escape_markdown_val rt message) (\<lambda>em.
       Inr (128285 # [92] @ S ''> '' @ um @ S '':'' @ [10] @ em @ [10])))))))))"

definition feed_comment_markdown :: "pytables \<Rightarrow> 'a feed_scheme \<Rightarrow> exn + str" where
  "feed_comment_markdown rt f = top_comments (comment_markdown_line rt) f"

text \<open>The \<^verbatim>\<open>mediaurls\<close> property and its setter.\<close>

definition feed_mediaurls :: "'a feed_scheme \<Rightarrow> json list" where
  "feed_mediaurls f = mediaurls_raw f"

definition set_mediaurls :: "json \<Rightarrow> 'a feed_scheme \<Rightarrow> 'a feed_scheme" where
  "set_mediaurls v f =
     (case v of JList xs \<Rightarrow> f\<lparr>mediaurls_raw := xs\<rparr> | _ \<Rightarrow> f\<lparr>mediaurls_raw := [v]\<rparr>)"

text \<open>\<^verbatim>\<open>re.search\<close> raises \<^verbatim>\<open>TypeError\<close> on a value that is no string.\<close>

definition get_filename_val :: "pytables \<Rightarrow> json \<Rightarrow> exn + str" where
  "get_filename_val rt v = (case v of JStr url \<Rightarrow> Inr (get_filename rt url) | _ \<Rightarrow> Inl TypeError)"

definition feed_mediafilename :: "pytables \<Rightarrow> 'a feed_scheme \<Rightarrow> exn + str list" where
  "feed_mediafilename rt f =
     (if mediaurls_raw f \<noteq> [] then emap (get_filename_val rt) (mediaurls_raw f) else Inr [])"

definition feed_url :: "'a feed_scheme \<Rightarrow> str" where
  "feed_url f = rawurl f"

section \<open>Computations with a state that may raise\<close>

text \<open>
  A coroutine of the source is a function from the state to a result and the new state;
  \<open>Inl\<close> is a raised exception.
\<close>

type_synonym ('s, 'a) io = "'s \<Rightarrow> (exn + 'a) \<times> 's"

definition io_return :: "'a \<Rightarrow> ('s, 'a) io" where
  "io_return x s = (Inr x, s)"

definition io_raise :: "exn \<Rightarrow> ('s, 'a) io" where
  "io_raise e s = (Inl e, s)"

definition io_lift :: "exn + 'a \<Rightarrow> ('s, 'a) io" where
  "io_lift r s = (r, s)"

definition io_bind :: "('s, 'a) io \<Rightarrow> ('a \<Rightarrow> ('s, 'b) io) \<Rightarrow> ('s, 'b) io" where
  "io_bind m f s = (case m s of (Inl e, s') \<Rightarrow> (Inl e, s') | (Inr x, s') \<Rightarrow> f x s')"

section \<open>The decorator \<^verbatim>\<open>safe_parser\<close>\<close>

text \<open>
  The inner \<^verbatim>\<open>try\<close>: \<^verbatim>\<open>func\<close> is awaited, and awaited once more when it raised
  \<^verbatim>\<open>IntegrityError\<close>.
\<close>

definition try_again :: "('s, 'a) io \<Rightarrow> ('s, 'a) io" where
  "try_again func s =
     (case func s of
        (Inl err, s') \<Rightarrow> if err = IntegrityError then func s' else (Inl err, s')
      | (Inr x, s') \<Rightarrow> (Inr x, s'))"

text \<open>
  The outer \<^verbatim>\<open>try\<close>: whatever is raised is returned. The result \<open>Inr (Inl err)\<close> is the
  exception object as a return value, \<open>Inr (Inr x)\<close> the value of \<^verbatim>\<open>func\<close>.
\<close>

definition safe_parser :: "('s, 'a) io \<Rightarrow> ('s, exn + 'a) io" where
  "safe_parser func s =
     (case try_again func s of
        (Inl err, s') \<Rightarrow> (Inr (Inl err), s')
      | (Inr x, s') \<Rightarrow> (Inr (Inr x), s'))"


section \<open>The world outside: clock, upstream, cache tables\<close>

text \<open>The cache models of \<^verbatim>\<open>CACHES\<close>.\<close>

datatype kind = Audio_cache | Bangumi_cache | Dynamic_cache | Live_cache | Read_cache
  | Reply_cache | Video_cache

text \<open>
  A row of a cache table: up to two key columns (\<^verbatim>\<open>oid, reply_type\<close>; \<^verbatim>\<open>dynamic_id, rid\<close>;
  \<^verbatim>\<open>audio_id\<close>; \<^verbatim>\<open>room_id\<close>; \<^verbatim>\<open>epid, ssid\<close>; \<^verbatim>\<open>read_id\<close>; \<^verbatim>\<open>aid, bvid\<close>), the
  stored \<^verbatim>\<open>content\<close> (\<^verbatim>\<open>graphurl\<close> for articles) and the time \<^verbatim>\<open>created\<close>.
\<close>

record row =
  key1 :: json
  key2 :: json
  payload :: json
  created :: int

text \<open>
  What \<^verbatim>\<open>BeautifulSoup(r.text, "lxml")\<close> finds in an article page: for each element the
  source looks for, its attributes if it is there, and whether the article holder is.
\<close>

record page =
  up_name :: "(str \<times> str) list option"
  meta_author :: "(str \<times> str) list option"
  meta_description :: "(str \<times> str) list option"
  og_image :: "(str \<times> str) list option"
  og_title :: "(str \<times> str) list option"
  article_holder :: bool

text \<open>A response of the HTTP client: the final URL, the decoded body if it is JSON, the page.\<close>

record response =
  resp_url :: str
  resp_json :: "json option"
  resp_page :: page

text \<open>The invocations of the resolvers, recorded in the order they start.\<close>

datatype call =
    CallReply json json
  | CallDynamic str
  | CallAudio str
  | CallLive str
  | CallVideo str
  | CallRead str
  | CallFeed str

text \<open>
  The state. Every interaction with the outside advances \<open>tick\<close>; the clock, the
  upstream, the mirror service and the database conflicts may answer differently at each
  tick. \<^verbatim>\<open>BILI_API\<close> and the \<^verbatim>\<open>timeout\<close> of each cache model are declared outside the
  source file and are fields of the state. \<open>publish\<close> stands for the re-hosting of
  an article's images and \<^verbatim>\<open>telegraph.create_page(...).get("url")\<close>.
\<close>

record world =
  tick :: nat
  clock :: "nat \<Rightarrow> int"
  http :: "nat \<Rightarrow> str \<Rightarrow> (str \<times> json) list \<Rightarrow> exn + response"
  publish :: "nat \<Rightarrow> exn + json"
  insert_conflict :: "nat \<Rightarrow> bool"
  BILI_API :: str
  timeout :: "kind \<Rightarrow> int"
  cache :: "kind \<Rightarrow> row list"
  trace :: "call list"

definition now :: "world \<Rightarrow> int" where
  "now w = clock w (tick w)"

definition advance :: "world \<Rightarrow> world" where
  "advance w = w\<lparr>tick := Suc (tick w)\<rparr>"

definition log_call :: "call \<Rightarrow> (world, unit) io" where
  "log_call c w = (Inr (), w\<lparr>trace := trace w @ [c]\<rparr>)"

text \<open>\<^verbatim>\<open>await client.get(url, params=...)\<close> and \<^verbatim>\<open>r.json()\<close>.\<close>

definition client_get :: "str \<Rightarrow> (str \<times> json) list \<Rightarrow> (world, response) io" where
  "client_get url params w = (http w (tick w) url params, advance w)"

definition resp_json_of :: "response \<Rightarrow> exn + json" where
  "resp_json_of r = (case resp_json r of None \<Rightarrow> Inl JSONDecodeError | Some j \<Rightarrow> Inr j)"

text \<open>
  \<^verbatim>\<open>Model.get_or_none(q)\<close>: the row that satisfies the query, \<^verbatim>\<open>None\<close> when there is
  none; the ORM raises when there are several.
\<close>

definition select_one :: "(row \<Rightarrow> bool) \<Rightarrow> row list \<Rightarrow> exn + row option" where
  "select_one q rows =
     (case filter q rows of [] \<Rightarrow> Inr None | [r] \<Rightarrow> Inr (Some r)
      | _ \<Rightarrow> Inl MultipleObjectsReturned)"

definition get_or_none :: "kind \<Rightarrow> (row \<Rightarrow> bool) \<Rightarrow> (world, row option) io" where
  "get_or_none k q w = (select_one q (cache w k), advance w)"

text \<open>
  The freshness condition \<^verbatim>\<open>Q(created__gte=timezone.now() - X.timeout)\<close>, for the cache
  model \<open>k\<close> whose \<^verbatim>\<open>timeout\<close> the source names.
\<close>

definition fresh :: "world \<Rightarrow> kind \<Rightarrow> row \<Rightarrow> bool" where
  "fresh w k r \<longleftrightarrow> created r \<ge> now w - timeout w k"

text \<open>
  \<^verbatim>\<open>cache.save(update_fields=[..., "created"])\<close> on a row that was found, and
  \<^verbatim>\<open>Model(...).save()\<close> of a new row, which raises \<^verbatim>\<open>IntegrityError\<close> when a
  concurrent insert has taken the key.
\<close>

definition save_row :: "kind \<Rightarrow> row \<Rightarrow> json \<Rightarrow> (world, unit) io" where
  "save_row k r c w =
     (Inr (),
      advance (w\<lparr>cache := (cache w)
        (k := map (\<lambda>x. if x = r then r\<lparr>payload := c, created := now w\<rparr> else x) (cache w k))\<rparr>))"

definition insert_row :: "kind \<Rightarrow> json \<Rightarrow> json \<Rightarrow> json \<Rightarrow> (world, unit) io" where
  "insert_row k k1 k2 c w =
     (if insert_conflict w (tick w) then (Inl IntegrityError, advance w)
      else (Inr (),
            advance (w\<lparr>cache := (cache w)
              (k := cache w k @ [\<lparr>key1 = k1, key2 = k2, payload = c, created = now w\<rparr>])\<rparr>)))"

text \<open>
  The block every resolver runs after a cache miss:
  \<^verbatim>\<open>if cache := await X.get_or_none(query): cache.content = c; await cache.save(...)\<close>
  \<^verbatim>\<open>else: await X(k1, k2, content=c).save()\<close>.
\<close>

definition cache_store :: "kind \<Rightarrow> (row \<Rightarrow> bool) \<Rightarrow> json \<Rightarrow> json \<Rightarrow> json \<Rightarrow> (world, unit) io" where
  "cache_store k q k1 k2 c =
     io_bind (get_or_none k q) (\<lambda>found.
       case found of Some r \<Rightarrow> save_row k r c | None \<Rightarrow> insert_row k k1 k2 c)"

text \<open>
  A key column compared with a query value: the ORM converts a string of digits to the
  integer of the column.
\<close>

definition py_int :: "pytables \<Rightarrow> str \<Rightarrow> int" where
  "py_int rt s =
     int (int_of_digits 10 (\<lambda>c. if c \<le> 57 then c - 48 else the (uni_decimal rt c)) s)"

definition db_key :: "pytables \<Rightarrow> json \<Rightarrow> json" where
  "db_key rt v =
     (case v of JStr s \<Rightarrow> if s \<noteq> [] \<and> list_all (is_digit rt) s then JInt (py_int rt s) else v
      | _ \<Rightarrow> v)"

definition db_eq :: "pytables \<Rightarrow> json \<Rightarrow> json \<Rightarrow> bool" where
  "db_eq rt a b \<longleftrightarrow> db_key rt a = db_key rt b"

section \<open>The class \<^verbatim>\<open>dynamic\<close>\<close>

text \<open>
  A \<^verbatim>\<open>dynamic\<close> object. The inherited fields \<open>user\<close> and \<open>content_raw\<close> hold the
  attributes \<^verbatim>\<open>__user\<close> and \<^verbatim>\<open>__content\<close> of the subclass, which its properties
  \<^verbatim>\<open>user\<close> and \<^verbatim>\<open>content\<close> read and set.
\<close>

record dynamic = feed +
  detailcontent :: json
  dynamic_id :: json
  rid :: json
  forward_user :: json
  forward_uid :: json
  forward_content :: json

definition new_dynamic :: "str \<Rightarrow> dynamic" where
  "new_dynamic url =
     feed.extend (new_feed url)
       (dynamic.fields (JObj []) (JInt 0) (JInt 0) (JStr []) (JInt 0) (JStr []))"

text \<open>\<^verbatim>\<open>v == n\<close> and \<^verbatim>\<open>v in [...]\<close> for a payload value and integers.\<close>

definition as_int :: "json \<Rightarrow> int option" where
  "as_int v = (case v of JInt i \<Rightarrow> Some i | JBool b \<Rightarrow> Some (if b then 1 else 0) | _ \<Rightarrow> None)"

definition eq_int :: "json \<Rightarrow> int \<Rightarrow> bool" where
  "eq_int v n \<longleftrightarrow> as_int v = Some n"

text \<open>\<open>in_range v a b\<close> is \<^verbatim>\<open>v in range(a, b)\<close>.\<close>

definition in_range :: "json \<Rightarrow> int \<Rightarrow> int \<Rightarrow> bool" where
  "in_range v a b \<longleftrightarrow> (case as_int v of Some i \<Rightarrow> a \<le> i \<and> i < b | None \<Rightarrow> False)"

text \<open>\<^verbatim>\<open>self.detailcontent["data"]["card"]\<close> and its \<^verbatim>\<open>["desc"]\<close>.\<close>

definition detail_card :: "dynamic \<Rightarrow> exn + json" where
  "detail_card f =
     ebind (py_item (detailcontent f) (S ''data'')) (\<lambda>d. py_item d (S ''card''))"

definition detail_desc :: "dynamic \<Rightarrow> exn + json" where
  "detail_desc f = ebind (detail_card f) (\<lambda>c. py_item c (S ''desc''))"

definition json_loads_val :: "pytables \<Rightarrow> json \<Rightarrow> exn + json" where
  "json_loads_val rt v =
     (case v of
        JStr s \<Rightarrow> (case json_loads rt s of Some j \<Rightarrow> Inr j | None \<Rightarrow> Inl JSONDecodeError)
      | _ \<Rightarrow> Inl TypeError)"

definition forward_card :: "pytables \<Rightarrow> dynamic \<Rightarrow> exn + json" where
  "forward_card rt f =
     ebind (detail_card f) (\<lambda>c. ebind (py_item c (S ''card'')) (json_loads_val rt))"

definition has_forward :: "dynamic \<Rightarrow> exn + bool" where
  "has_forward f =
     ebind (detail_desc f) (\<lambda>d. ebind (py_item d (S ''orig_type'')) (\<lambda>t. Inr (truthy t)))"

definition forward_type :: "dynamic \<Rightarrow> exn + json" where
  "forward_type f = ebind (detail_desc f) (\<lambda>d. py_item d (S ''type''))"

definition origin_type :: "dynamic \<Rightarrow> exn + json" where
  "origin_type f =
     ebind (has_forward f) (\<lambda>h.
       if h then ebind (detail_desc f) (\<lambda>d. py_item d (S ''orig_type''))
       else forward_type f)"

text \<open>
  The table of \<^verbatim>\<open>dynamic.reply_type\<close> on the value of \<^verbatim>\<open>forward_type\<close>; \<open>JNull\<close> is
  the \<^verbatim>\<open>None\<close> of a method that ends without \<^verbatim>\<open>return\<close>.
\<close>

definition reply_type_of :: "json \<Rightarrow> json" where
  "reply_type_of t =
     (if eq_int t 2 then JInt 11
      else if eq_int t 16 then JInt 5
      else if eq_int t 64 then JInt 12
      else if eq_int t 256 then JInt 14
      else if eq_int t 8 \<or> eq_int t 512 \<or> in_range t 4000 4200 then JInt 1
      else if eq_int t 1 \<or> eq_int t 4 \<or> in_range t 4200 4300 \<or> in_range t 2048 2100
        then JInt 17
      else JNull)"

definition reply_type :: "dynamic \<Rightarrow> exn + json" where
  "reply_type f = ebind (forward_type f) (\<lambda>t. Inr (reply_type_of t))"

definition oid :: "dynamic \<Rightarrow> exn + json" where
  "oid f =
     ebind (forward_type f) (\<lambda>t.
       if eq_int t 1 \<or> eq_int t 4 \<or> in_range t 4200 4300 \<or> in_range t 2048 2100
       then Inr (dynamic_id f) else Inr (rid f))"

definition card :: "pytables \<Rightarrow> dynamic \<Rightarrow> exn + json" where
  "card rt f =
     ebind (has_forward f) (\<lambda>h.
       if h then
         ebind (forward_card rt f) (\<lambda>fc.
         ebind (py_get fc (S ''origin'')) (\<lambda>origin.
           if truthy origin then json_loads_val rt origin else Inr fc))
       else forward_card rt f)"

text \<open>\<^verbatim>\<open>sub in s\<close> for strings.\<close>

fun has_infix :: "str \<Rightarrow> str \<Rightarrow> bool" where
  "has_infix sub [] \<longleftrightarrow> sub = []"
| "has_infix sub (c # cs) \<longleftrightarrow> take (length sub) (c # cs) = sub \<or> has_infix sub cs"

text \<open>
  \<^verbatim>\<open>add_on_card\<close>: \<^verbatim>\<open>"add_on_card_info" in display\<close> is a key test on a dictionary, a
  membership test on a list, a substring test on a string; only a dictionary can then be
  indexed with the key.
\<close>

definition add_on_card :: "dynamic \<Rightarrow> exn + json" where
  "add_on_card f =
     ebind (detail_card f) (\<lambda>c.
     ebind (py_item c (S ''display'')) (\<lambda>display.
       case display of
         JObj kv \<Rightarrow> (case map_of kv (S ''add_on_card_info'') of Some v \<Rightarrow> Inr v | None \<Rightarrow> Inr (JList []))
       | JList xs \<Rightarrow> if JStr (S ''add_on_card_info'') \<in> set xs then Inl TypeError else Inr (JList [])
       | JStr s \<Rightarrow> if has_infix (S ''add_on_card_info'') s then Inl TypeError else Inr (JList [])
       | _ \<Rightarrow> Inl TypeError))"

definition dynamic_user :: "dynamic \<Rightarrow> exn + json" where
  "dynamic_user f = ebind (has_forward f) (\<lambda>h. Inr (if h then forward_user f else user f))"

definition dynamic_user_markdown :: "pytables \<Rightarrow> dynamic \<Rightarrow> exn + str" where
  "dynamic_user_markdown rt f =
     ebind (has_forward f) (\<lambda>h.
       if h then make_user_markdown rt (forward_user f) (forward_uid f)
       else make_user_markdown rt (user f) (uid f))"

text \<open>Iterating a value: the items of a list, the characters of a string, the keys of a dictionary.\<close>

definition py_iter :: "json \<Rightarrow> exn + json list" where
  "py_iter v =
     (case v of JList xs \<Rightarrow> Inr xs
      | JStr s \<Rightarrow> Inr (map (\<lambda>c. JStr [c]) s)
      | JObj kv \<Rightarrow> Inr (map (\<lambda>p. JStr (fst p)) kv)
      | _ \<Rightarrow> Inl TypeError)"

text \<open>
  \<^verbatim>\<open>a += b\<close>: strings are concatenated, a list is extended by the items of an iterable,
  integers (and booleans) are added; everything else raises.
\<close>

definition py_iadd :: "json \<Rightarrow> json \<Rightarrow> exn + json" where
  "py_iadd a b =
     (case a of
        JStr x \<Rightarrow> (case b of JStr y \<Rightarrow> Inr (JStr (x @ y)) | _ \<Rightarrow> Inl TypeError)
      | JList x \<Rightarrow> ebind (py_iter b) (\<lambda>y. Inr (JList (x @ y)))
      | JNull \<Rightarrow> Inl TypeError
      | JObj kv \<Rightarrow> Inl TypeError
      | _ \<Rightarrow> (case (as_int a, as_int b) of (Some i, Some j) \<Rightarrow> Inr (JInt (i + j))
              | _ \<Rightarrow> Inl TypeError))"

definition dynamic_content :: "pytables \<Rightarrow> dynamic \<Rightarrow> exn + str" where
  "dynamic_content rt f =
     ebind (has_forward f) (\<lambda>h.
     ebind (if h then
              (if truthy (user f)
               then py_iadd (forward_content f)
                      (JStr (S ''//@'' @ py_str rt (user f) @ S '':'' @ [10]))
               else Inr (forward_content f))
            else Inr (JStr [])) (\<lambda>content.
     ebind (py_iadd content (content_raw f)) shrink_line_val))"

definition dynamic_content_markdown :: "pytables \<Rightarrow> dynamic \<Rightarrow> exn + str" where
  "dynamic_content_markdown rt f =
     ebind (has_forward f) (\<lambda>h.
     ebind (if h then
              ebind (escape_markdown_val rt (forward_content f)) (\<lambda>fc.
                if truthy (uid f) then
                  ebind (make_user_markdown rt (user f) (uid f)) (\<lambda>um.
                    Inr (fc @ S ''//'' @ um @ S '':'' @ [10]))
                else if truthy (user f) then
                  ebind (escape_markdown_val rt (user f)) (\<lambda>u.
                    Inr (fc @ S ''//@'' @ u @ S '':'' @ [10]))
                else Inr fc)
            else Inr []) (\<lambda>content_markdown.
     ebind (escape_markdown_val rt (content_raw f)) (\<lambda>c.
       let content_markdown = content_markdown @ c;
           content_markdown = (if \<not> ends_with_newline content_markdown
                               then content_markdown @ [10] else content_markdown)
       in ebind (if truthy (extra_markdown f)
                 then (case extra_markdown f of JStr e \<Rightarrow> Inr (content_markdown @ e)
                       | _ \<Rightarrow> Inl TypeError)
                 else Inr content_markdown) (\<lambda>content_markdown.
            Inr (shrink_line content_markdown)))))"

definition dynamic_url :: "pytables \<Rightarrow> dynamic \<Rightarrow> str" where
  "dynamic_url rt f = S ''https://t.bilibili.com/'' @ py_str rt (dynamic_id f)"

section \<open>The classes \<^verbatim>\<open>audio\<close>, \<^verbatim>\<open>live\<close>, \<^verbatim>\<open>video\<close> and \<^verbatim>\<open>read\<close>\<close>

record audio = feed +
  audio_infocontent :: json
  audio_mediacontent :: json
  audio_id :: json

definition new_audio :: "str \<Rightarrow> audio" where
  "new_audio url = feed.extend (new_feed url) (audio.fields (JObj []) (JStr []) (JInt 0))"

definition audio_reply_type :: json where
  "audio_reply_type = JInt 14"

definition audio_url :: "pytables \<Rightarrow> audio \<Rightarrow> str" where
  "audio_url rt f = S ''https://www.bilibili.com/audio/au'' @ py_str rt (audio_id f)"

record live = feed +
  live_rawcontent :: json
  room_id :: json

definition new_live :: "str \<Rightarrow> live" where
  "new_live url = feed.extend (new_feed url) (live.fields (JObj []) (JInt 0))"

definition live_url :: "pytables \<Rightarrow> live \<Rightarrow> str" where
  "live_url rt f = S ''https://live.bilibili.com/'' @ py_str rt (room_id f)"

record video = feed +
  aid :: json
  cid :: json
  sid :: json
  video_infocontent :: json

definition new_video :: "str \<Rightarrow> video" where
  "new_video url = feed.extend (new_feed url) (video.fields (JInt 0) (JInt 0) (JInt 0) (JObj []))"

definition video_reply_type :: json where
  "video_reply_type = JInt 1"

definition video_url :: "pytables \<Rightarrow> video \<Rightarrow> str" where
  "video_url rt f = S ''https://www.bilibili.com/video/av'' @ py_str rt (aid f)"

record read = feed +
  read_id :: json

definition new_read :: "str \<Rightarrow> read" where
  "new_read url = feed.extend (new_feed url) (read.fields (JInt 0))"

definition read_reply_type :: json where
  "read_reply_type = JInt 12"

definition read_url :: "pytables \<Rightarrow> read \<Rightarrow> str" where
  "read_url rt f = S ''https://www.bilibili.com/read/cv'' @ py_str rt (read_id f)"

text \<open>What a resolver returns: an object of one of the five classes.\<close>

datatype any_feed =
    Dynamic dynamic
  | Audio audio
  | Live live
  | Video video
  | Read read

section \<open>The messages of \<^verbatim>\<open>ParserException\<close>\<close>

text \<open>
  The messages are Chinese text; each constant is named after the error it reports and
  holds the code points of the message in the source.
\<close>

definition E_dynamic_link :: str where
  "E_dynamic_link = [21160, 24577, 38142, 25509, 38169, 35823]"

definition E_dynamic_parse :: str where
  "E_dynamic_parse = [21160, 24577, 35299, 26512, 38169, 35823]"

definition E_audio_link :: str where
  "E_audio_link = [38899, 39057, 38142, 25509, 38169, 35823]"

definition E_audio_parse :: str where
  "E_audio_parse = [38899, 39057, 35299, 26512, 38169, 35823]"

definition E_live_link :: str where
  "E_live_link = [30452, 25773, 38142, 25509, 38169, 35823]"

definition E_live_parse :: str where
  "E_live_parse = [30452, 25773, 35299, 26512, 38169, 35823]"

definition E_live_content :: str where
  "E_live_content = [30452, 25773, 20869, 23481, 33719, 21462, 38169, 35823]"

definition E_video_link :: str where
  "E_video_link = [35270, 39057, 38142, 25509, 38169, 35823]"

definition E_bangumi_parse :: str where
  "E_bangumi_parse = [30058, 21095, 35299, 26512, 38169, 35823]"

definition E_video_parse :: str where
  "E_video_parse = [35270, 39057, 35299, 26512, 38169, 35823]"

definition E_video_content :: str where
  "E_video_content = [35270, 39057, 20869, 23481, 33719, 21462, 38169, 35823]"

definition E_read_link :: str where
  "E_read_link = [25991, 31456, 38142, 25509, 38169, 35823]"

definition E_read_uid :: str where
  "E_read_uid = [25991, 31456, 117, 105, 100, 35299, 26512, 38169, 35823]"

definition E_read_user :: str where
  "E_read_user = [25991, 31456, 117, 115, 101, 114, 35299, 26512, 38169, 35823]"

definition E_read_content :: str where
  "E_read_content = [25991, 31456, 99, 111, 110, 116, 101, 110, 116, 35299, 26512, 38169, 35823]"

definition E_read_mediaurls :: str where
  "E_read_mediaurls =
     [25991, 31456, 109, 101, 100, 105, 97, 117, 114, 108, 115, 35299, 26512, 38169, 35823]"

definition E_read_title :: str where
  "E_read_title = [25991, 31456, 116, 105, 116, 108, 101, 35299, 26512, 38169, 35823]"

definition E_read_article :: str where
  "E_read_article = [25991, 31456, 97, 114, 116, 105, 99, 108, 101, 35299, 26512, 38169, 35823]"

definition E_url :: str where
  "E_url = [85, 82, 76, 38169, 35823]"

section \<open>The patterns of the resolvers\<close>

fun lit_str :: "str \<Rightarrow> rx" where
  "lit_str [] = Rep (\<lambda>_. False) 0 None"
| "lit_str [c] = Lit c"
| "lit_str (c # cs) = Seq (Lit c) (lit_str cs)"

fun lit_strI :: "str \<Rightarrow> rx" where
  "lit_strI [] = Rep (\<lambda>_. False) 0 None"
| "lit_strI [c] = LitI c"
| "lit_strI (c # cs) = Seq (LitI c) (lit_strI cs)"

definition digits :: "pytables \<Rightarrow> rx" where
  "digits rt = Rep (is_digit rt) 1 None"

text \<open>\<^verbatim>\<open>[\/\w]*\/(\d+)\<close>, the tail of the status-update and live patterns.\<close>

definition path_id :: "pytables \<Rightarrow> rx" where
  "path_id rt =
     Seq (Rep (\<lambda>c. c = 47 \<or> is_word rt c) 0 None) (Seq (Lit 47) (Grp 1 (digits rt)))"

text \<open>\<^verbatim>\<open>[th]\.bilibili\.com[\/\w]*\/(\d+)\<close>\<close>

definition dynamic_rx :: "pytables \<Rightarrow> rx" where
  "dynamic_rx rt =
     Seq (Cls (\<lambda>c. c = 116 \<or> c = 104)) (Seq (lit_str (S ''.bilibili.com'')) (path_id rt))"

text \<open>\<^verbatim>\<open>bilibili\.com\/audio\/au(\d+)\<close>\<close>

definition audio_rx :: "pytables \<Rightarrow> rx" where
  "audio_rx rt = Seq (lit_str (S ''bilibili.com/audio/au'')) (Grp 1 (digits rt))"

text \<open>\<^verbatim>\<open>live\.bilibili\.com[\/\w]*\/(\d+)\<close>\<close>

definition live_rx :: "pytables \<Rightarrow> rx" where
  "live_rx rt = Seq (lit_str (S ''live.bilibili.com'')) (path_id rt)"

text \<open>
  \<^verbatim>\<open>(?i)(?:bilibili\.com/(?:video|bangumi/play)|b23\.tv|acg\.tv)/\<close>
  \<^verbatim>\<open>(?:(?P<bvid>bv\w+)|av(?P<aid>\d+)|ep(?P<epid>\d+)|ss(?P<ssid>\d+))\<close>;
  the groups \<^verbatim>\<open>bvid\<close>, \<^verbatim>\<open>aid\<close>, \<^verbatim>\<open>epid\<close>, \<^verbatim>\<open>ssid\<close> are numbered 1 to 4.
\<close>

definition video_rx :: "pytables \<Rightarrow> rx" where
  "video_rx rt =
     Seq (Alt (Seq (lit_strI (S ''bilibili.com/''))
                 (Alt (lit_strI (S ''video'')) (lit_strI (S ''bangumi/play''))))
            (Alt (lit_strI (S ''b23.tv'')) (lit_strI (S ''acg.tv''))))
       (Seq (LitI 47)
          (Alt (Grp 1 (Seq (lit_strI (S ''bv'')) (Rep (is_word rt) 1 None)))
          (Alt (Seq (lit_strI (S ''av'')) (Grp 2 (digits rt)))
          (Alt (Seq (lit_strI (S ''ep'')) (Grp 3 (digits rt)))
               (Seq (lit_strI (S ''ss'')) (Grp 4 (digits rt)))))))"

text \<open>\<^verbatim>\<open>bilibili\.com\/read\/(?:cv|mobile\/)(\d+)\<close>\<close>

definition read_rx :: "pytables \<Rightarrow> rx" where
  "read_rx rt =
     Seq (lit_str (S ''bilibili.com/read/''))
       (Seq (Alt (lit_str (S ''cv'')) (lit_str (S ''mobile/''))) (Grp 1 (digits rt)))"

text \<open>The patterns of \<^verbatim>\<open>feed_parser\<close>; \<^verbatim>\<open>.\<close> is any character but a newline.\<close>

definition api_rx :: rx where
  "api_rx = Seq (lit_str (S ''api.'')) (Seq (Rep (\<lambda>c. c \<noteq> 10) 0 None) (lit_str (S ''.bilibili'')))"

definition th_rx :: rx where
  "th_rx = Seq (Cls (\<lambda>c. c = 116 \<or> c = 104)) (lit_str (S ''.bilibili.com''))"

definition video_path_rx :: rx where
  "video_path_rx =
     Seq (lit_str (S ''bilibili.com/'')) (Alt (lit_str (S ''video'')) (lit_str (S ''bangumi/play'')))"

definition found :: "rx \<Rightarrow> str \<Rightarrow> bool" where
  "found r s \<longleftrightarrow> re_search r s \<noteq> None"

section \<open>The resolvers\<close>

definition with_world :: "(world \<Rightarrow> (world, 'a) io) \<Rightarrow> (world, 'a) io" where
  "with_world f w = f w w"

text \<open>\<^verbatim>\<open>v.get(k1).get(k2)...\<close>\<close>

fun gets :: "json \<Rightarrow> str list \<Rightarrow> exn + json" where
  "gets v [] = Inr v"
| "gets v (k # ks) = ebind (py_get v k) (\<lambda>x. gets x ks)"

text \<open>
  \<^verbatim>\<open>reply_parser\<close>. When the response has no \<^verbatim>\<open>data\<close>, the \<^verbatim>\<open>raise\<close> statement first
  evaluates \<^verbatim>\<open>r.url\<close> on the decoded body, which raises \<^verbatim>\<open>AttributeError\<close>.
\<close>

definition reply_query :: "pytables \<Rightarrow> json \<Rightarrow> json \<Rightarrow> row \<Rightarrow> bool" where
  "reply_query rt oi rtype r \<longleftrightarrow> db_eq rt (key1 r) oi \<and> db_eq rt (key2 r) rtype"

definition reply_body :: "pytables \<Rightarrow> json \<Rightarrow> json \<Rightarrow> (world, json) io" where
  "reply_body rt oi rtype =
     io_bind (log_call (CallReply oi rtype)) (\<lambda>_.
     with_world (\<lambda>w.
     io_bind (get_or_none Reply_cache (\<lambda>r. reply_query rt oi rtype r \<and> fresh w Reply_cache r))
       (\<lambda>cache.
     io_bind
       (case cache of
          Some c \<Rightarrow> io_return (payload c)
        | None \<Rightarrow>
            with_world (\<lambda>w.
            io_bind (client_get (BILI_API w @ S ''/x/v2/reply/main'')
                       [(S ''oid'', oi), (S ''type'', rtype)]) (\<lambda>resp.
            io_bind (io_lift (resp_json_of resp)) (\<lambda>r.
            io_bind (io_lift (py_get r (S ''data''))) (\<lambda>d.
              if \<not> truthy d then io_raise AttributeError else io_return r)))))
       (\<lambda>r.
     io_bind (if cache = None then cache_store Reply_cache (reply_query rt oi rtype) oi rtype r
              else io_return ()) (\<lambda>_.
     io_return r)))))"

definition reply_parser :: "pytables \<Rightarrow> json \<Rightarrow> json \<Rightarrow> (world, exn + json) io" where
  "reply_parser rt oi rtype = safe_parser (reply_body rt oi rtype)"

text \<open>\<^verbatim>\<open>audio_parser\<close>\<close>

definition audio_body :: "pytables \<Rightarrow> str \<Rightarrow> (world, audio) io" where
  "audio_body rt url =
     io_bind (log_call (CallAudio url)) (\<lambda>_.
     case re_search (audio_rx rt) url of
       None \<Rightarrow> io_raise (ParserException E_audio_link url)
     | Some (m, g) \<Rightarrow>
         let f = (new_audio url)\<lparr>audio_id := JInt (py_int rt (the (g 1)))\<rparr>;
             query = (\<lambda>r. db_eq rt (key1 r) (audio_id f))
         in
         with_world (\<lambda>w.
         io_bind (get_or_none Audio_cache (\<lambda>r. query r \<and> fresh w Audio_cache r)) (\<lambda>cache.
         io_bind
           (case cache of
              Some c \<Rightarrow>
                io_bind (io_lift (py_item (payload c) (S ''data''))) (\<lambda>detail.
                  io_return (f\<lparr>audio_infocontent := payload c\<rparr>, detail))
            | None \<Rightarrow>
                with_world (\<lambda>w.
                io_bind (client_get (BILI_API w @ S ''/audio/music-service-c/songs/playing'')
                           [(S ''song_id'', audio_id f)]) (\<lambda>r.
                io_bind (io_lift (resp_json_of r)) (\<lambda>j.
                io_bind (io_lift (py_get j (S ''data''))) (\<lambda>detail.
                  if \<not> truthy detail then io_raise (ParserException E_audio_parse (resp_url r))
                  else io_return (f\<lparr>audio_infocontent := j\<rparr>, detail))))))
           (\<lambda>(f, detail).
         io_bind (if cache = None
                  then cache_store Audio_cache query (audio_id f) JNull (audio_infocontent f)
                  else io_return ()) (\<lambda>_.
         io_bind (io_lift (py_get detail (S ''mid''))) (\<lambda>mid.
         let f = f\<lparr>uid := mid\<rparr> in
         with_world (\<lambda>w.
         io_bind (client_get (BILI_API w @ S ''/audio/music-service-c/url'')
                    [(S ''songid'', audio_id f), (S ''mid'', uid f), (S ''privilege'', JInt 2),
                     (S ''quality'', JInt 3), (S ''platform'', JStr [])]) (\<lambda>r.
         io_bind (io_lift (resp_json_of r)) (\<lambda>mc.
         let f = f\<lparr>audio_mediacontent := mc\<rparr> in
         io_bind (io_lift (py_get detail (S ''author''))) (\<lambda>author.
         io_bind (io_lift (py_get detail (S ''intro''))) (\<lambda>intro.
         io_bind (io_lift (ebind (py_get detail (S ''title'')) (escape_markdown_val rt))) (\<lambda>t.
         io_bind (io_lift (py_get detail (S ''cover_url''))) (\<lambda>cover.
         io_bind (io_lift (py_get detail (S ''title''))) (\<lambda>title.
         io_bind (io_lift (py_get detail (S ''duration''))) (\<lambda>duration.
         io_bind (io_lift (gets mc [S ''data'', S ''cdns''])) (\<lambda>cdns.
         let f = f\<lparr>user := author, content_raw := intro,
                    extra_markdown := JStr (S ''['' @ t @ S '']('' @ audio_url rt f @ S '')''),
                    mediathumb := cover, mediatitle := title, mediaduration := duration\<rparr>;
             f = set_mediaurls cdns f;
             f = f\<lparr>mediatype := JStr (S ''audio''), mediaraws := JBool True\<rparr>
         in
         io_bind (reply_parser rt (audio_id f) audio_reply_type) (\<lambda>r.
         io_return (f\<lparr>replycontent := Some r\<rparr>))))))))))))))))))"

definition audio_parser :: "pytables \<Rightarrow> str \<Rightarrow> (world, exn + audio) io" where
  "audio_parser rt url = safe_parser (audio_body rt url)"

text \<open>\<^verbatim>\<open>live_parser\<close>\<close>

definition live_body :: "pytables \<Rightarrow> str \<Rightarrow> (world, live) io" where
  "live_body rt url =
     io_bind (log_call (CallLive url)) (\<lambda>_.
     case re_search (live_rx rt) url of
       None \<Rightarrow> io_raise (ParserException E_live_link url)
     | Some (m, g) \<Rightarrow>
         let f = (new_live url)\<lparr>room_id := JInt (py_int rt (the (g 1)))\<rparr>;
             query = (\<lambda>r. db_eq rt (key1 r) (room_id f))
         in
         with_world (\<lambda>w.
         io_bind (get_or_none Live_cache (\<lambda>r. query r \<and> fresh w Live_cache r)) (\<lambda>cache.
         io_bind
           (case cache of
              Some c \<Rightarrow>
                io_bind (io_lift (py_get (payload c) (S ''data''))) (\<lambda>detail.
                  io_return (f\<lparr>live_rawcontent := payload c\<rparr>, detail))
            | None \<Rightarrow>
                io_bind (client_get
                           (S ''https://api.live.bilibili.com/xlive/web-room/v1/index/getInfoByRoom'')
                           [(S ''room_id'', room_id f)]) (\<lambda>r.
                io_bind (io_lift (resp_json_of r)) (\<lambda>j.
                io_bind (io_lift (py_get j (S ''data''))) (\<lambda>detail.
                  if \<not> truthy detail then io_raise (ParserException E_live_parse (resp_url r))
                  else io_return (f\<lparr>live_rawcontent := j\<rparr>, detail)))))
           (\<lambda>(f, detail).
         io_bind (if cache = None
                  then cache_store Live_cache query (room_id f) JNull (live_rawcontent f)
                  else io_return ()) (\<lambda>_.
         if \<not> truthy detail then io_raise (ParserException E_live_content (live_url rt f))
         else
         io_bind (io_lift (ebind (py_item detail (S ''anchor_info'')) (\<lambda>a.
                           ebind (py_item a (S ''base_info'')) (\<lambda>b. py_item b (S ''uname''))))) (\<lambda>uname.
         io_bind (io_lift (py_get detail (S ''room_info''))) (\<lambda>roominfo.
         io_bind (io_lift (py_get roominfo (S ''uid''))) (\<lambda>ui.
         io_bind (io_lift (py_get roominfo (S ''title''))) (\<lambda>title.
         io_bind (io_lift (py_get roominfo (S ''area_name''))) (\<lambda>area.
         io_bind (io_lift (py_get roominfo (S ''parent_area_name''))) (\<lambda>parent.
         io_bind (io_lift (escape_markdown_val rt uname)) (\<lambda>u.
         io_bind (io_lift (py_get roominfo (S ''keyframe''))) (\<lambda>keyframe.
         let f = f\<lparr>user := uname, uid := ui,
                    content_raw := JStr (py_str rt title @ S '' - '' @ py_str rt area @ S '' - ''
                                         @ py_str rt parent),
                    extra_markdown := JStr (S ''['' @ u @ [30340, 30452, 25773, 38388] @ S '']('' 
                                            @ live_url rt f @ S '')'')\<rparr>;
             f = set_mediaurls keyframe f;
             f = f\<lparr>mediatype := JStr (S ''image'')\<rparr>
         in io_return f)))))))))))))"

definition live_parser :: "pytables \<Rightarrow> str \<Rightarrow> (world, exn + live) io" where
  "live_parser rt url = safe_parser (live_body rt url)"

text \<open>
  \<^verbatim>\<open>video_parser\<close>. The loop over the episodes of a season: every episode whose
  \<^verbatim>\<open>id\<close> prints as the requested one sets \<^verbatim>\<open>f.aid\<close>.
\<close>

fun pick_episode :: "pytables \<Rightarrow> str \<Rightarrow> json list \<Rightarrow> video \<Rightarrow> exn + video" where
  "pick_episode rt epid [] f = Inr f"
| "pick_episode rt epid (episode # episodes) f =
     ebind (py_get episode (S ''id'')) (\<lambda>i.
       if py_str rt i = epid
       then ebind (py_get episode (S ''aid'')) (\<lambda>a. pick_episode rt epid episodes (f\<lparr>aid := a\<rparr>))
       else pick_episode rt epid episodes f)"

definition param :: "(str \<times> json) list \<Rightarrow> str \<Rightarrow> json" where
  "param params k = (case map_of params k of Some v \<Rightarrow> v | None \<Rightarrow> JNull)"

text \<open>The season stage, lines 631 to 667; it ends with \<^verbatim>\<open>params = {"aid": f.aid}\<close>.\<close>

definition video_bangumi ::
  "pytables \<Rightarrow> str \<Rightarrow> video \<Rightarrow> str option \<Rightarrow> (str \<times> json) list
     \<Rightarrow> (world, video \<times> (str \<times> json) list) io" where
  "video_bangumi rt url f epid params =
     (let query = (\<lambda>r. db_eq rt (key1 r) (param params (S ''ep_id''))
                        \<or> db_eq rt (key2 r) (param params (S ''season_id'')))
      in
      with_world (\<lambda>w.
      io_bind (get_or_none Bangumi_cache (\<lambda>r. query r \<and> fresh w Video_cache r)) (\<lambda>cache.
      io_bind
        (case cache of
           Some c \<Rightarrow> io_return (payload c)
         | None \<Rightarrow>
             with_world (\<lambda>w.
             io_bind (client_get (BILI_API w @ S ''/pgc/view/web/season'') params) (\<lambda>r.
               io_lift (resp_json_of r))))
        (\<lambda>info.
      let f = f\<lparr>video_infocontent := info\<rparr> in
      io_bind (io_lift (py_get info (S ''result''))) (\<lambda>detail.
      if \<not> truthy detail then io_raise (ParserException E_bangumi_parse url)
      else
      io_bind (io_lift (py_get detail (S ''season_id''))) (\<lambda>season.
      let f = f\<lparr>sid := season\<rparr> in
      io_bind
        (case epid of
           Some e \<Rightarrow>
             io_bind (io_lift (ebind (py_get detail (S ''episodes'')) py_iter)) (\<lambda>episodes.
               io_lift (pick_episode rt e episodes f))
         | None \<Rightarrow> io_return f)
        (\<lambda>f.
      io_bind
        (if \<not> truthy (aid f) then
           io_bind (io_lift (ebind (py_get detail (S ''episodes'')) py_last)) (\<lambda>l.
           io_bind (io_lift (py_get l (S ''aid''))) (\<lambda>a.
           io_bind (io_lift (py_get l (S ''id''))) (\<lambda>i.
             io_return (f\<lparr>aid := a\<rparr>, i))))
         else io_return (f, case epid of Some e \<Rightarrow> JStr e | None \<Rightarrow> JNull))
        (\<lambda>(f, epid).
      io_bind (if cache = None then cache_store Bangumi_cache query epid (sid f) info
               else io_return ()) (\<lambda>_.
      io_return (f, [(S ''aid'', aid f)]))))))))))"

text \<open>The video stage, from line 669.\<close>

definition video_view :: "pytables \<Rightarrow> video \<Rightarrow> (str \<times> json) list \<Rightarrow> (world, video) io" where
  "video_view rt f params =
     (let query = (\<lambda>r. db_eq rt (key1 r) (param params (S ''aid''))
                        \<or> key2 r = param params (S ''bvid''))
      in
      with_world (\<lambda>w.
      io_bind (get_or_none Video_cache (\<lambda>r. query r \<and> fresh w Video_cache r)) (\<lambda>cache.
      io_bind
        (case cache of
           Some c \<Rightarrow>
             io_bind (io_lift (py_get (payload c) (S ''data''))) (\<lambda>detail.
               io_return (f\<lparr>video_infocontent := payload c\<rparr>, detail))
         | None \<Rightarrow>
             with_world (\<lambda>w.
             io_bind (client_get (BILI_API w @ S ''/x/web-interface/view'') params) (\<lambda>r.
             io_bind (io_lift (resp_json_of r)) (\<lambda>j.
             io_bind (io_lift (py_get j (S ''data''))) (\<lambda>detail.
               if \<not> truthy detail then io_raise (ParserException E_video_parse (resp_url r))
               else io_return (f\<lparr>video_infocontent := j\<rparr>, detail))))))
        (\<lambda>(f, detail).
      if \<not> truthy detail then io_raise (ParserException E_video_content (video_url rt f))
      else
      io_bind (io_lift (py_get detail (S ''bvid''))) (\<lambda>bvid.
      io_bind (io_lift (py_get detail (S ''aid''))) (\<lambda>a.
      io_bind (io_lift (py_get detail (S ''cid''))) (\<lambda>c.
      let f = f\<lparr>aid := a, cid := c\<rparr> in
      io_bind (if cache = None
               then cache_store Video_cache query (aid f) bvid (video_infocontent f)
               else io_return ()) (\<lambda>_.
      io_bind (io_lift (gets detail [S ''owner'', S ''name''])) (\<lambda>name.
      io_bind (io_lift (gets detail [S ''owner'', S ''mid''])) (\<lambda>mid.
      io_bind (io_lift (py_get detail (S ''dynamic''))) (\<lambda>dyn.
      io_bind (io_lift (ebind (py_get detail (S ''title'')) (escape_markdown_val rt))) (\<lambda>t.
      io_bind (io_lift (py_get detail (S ''title''))) (\<lambda>title.
      io_bind (io_lift (py_get detail (S ''pic''))) (\<lambda>pic.
      let f = f\<lparr>user := name, uid := mid, content_raw := dyn,
                 extra_markdown := JStr (S ''['' @ t @ S '']('' @ video_url rt f @ S '')''),
                 mediatitle := title\<rparr>;
          f = set_mediaurls pic f;
          f = f\<lparr>mediatype := JStr (S ''image'')\<rparr>
      in
      io_bind (reply_parser rt (aid f) video_reply_type) (\<lambda>r.
      io_return (f\<lparr>replycontent := Some r\<rparr>))))))))))))))))"

definition video_body :: "pytables \<Rightarrow> str \<Rightarrow> (world, video) io" where
  "video_body rt url =
     io_bind (log_call (CallVideo url)) (\<lambda>_.
     case re_search (video_rx rt) url of
       None \<Rightarrow> io_raise (ParserException E_video_link url)
     | Some (m, g) \<Rightarrow>
         let f = new_video url;
             params =
               (case g 3 of Some epid \<Rightarrow> [(S ''ep_id'', JStr epid)]
                | None \<Rightarrow>
               (case g 1 of Some bvid \<Rightarrow> [(S ''bvid'', JStr bvid)]
                | None \<Rightarrow>
               (case g 2 of Some a \<Rightarrow> [(S ''aid'', JStr a)]
                | None \<Rightarrow>
               (case g 4 of Some ssid \<Rightarrow> [(S ''season_id'', JStr ssid)]
                | None \<Rightarrow> []))))
         in
         io_bind
           (if map_of params (S ''ep_id'') \<noteq> None \<or> map_of params (S ''season_id'') \<noteq> None
            then video_bangumi rt url f (g 3) params
            else io_return (f, params))
           (\<lambda>(f, params). video_view rt f params))"

definition video_parser :: "pytables \<Rightarrow> str \<Rightarrow> (world, exn + video) io" where
  "video_parser rt url = safe_parser (video_body rt url)"

text \<open>
  \<^verbatim>\<open>read_parser\<close>. \<open>require_attr\<close> is the test
  \<^verbatim>\<open>if not isinstance(tag, Tag) or not tag.attrs.get(k): raise ParserException(msg, url, tag)\<close>.
\<close>

definition require_attr ::
  "(str \<times> str) list option \<Rightarrow> str \<Rightarrow> str \<Rightarrow> str \<Rightarrow> (world, str) io" where
  "require_attr tag k msg url =
     (case tag of
        None \<Rightarrow> io_raise (ParserException msg url)
      | Some attrs \<Rightarrow>
          (case map_of attrs k of
             None \<Rightarrow> io_raise (ParserException msg url)
           | Some v \<Rightarrow> if v = [] then io_raise (ParserException msg url) else io_return v))"

text \<open>\<^verbatim>\<open>href.split("/")[-1]\<close>\<close>

definition last_segment :: "str \<Rightarrow> str" where
  "last_segment s = rev (takeWhile (\<lambda>c. c \<noteq> 47) (rev s))"

definition telegraph_publish :: "(world, json) io" where
  "telegraph_publish w = (publish w (tick w), advance w)"

definition read_body :: "pytables \<Rightarrow> str \<Rightarrow> (world, read) io" where
  "read_body rt url =
     io_bind (log_call (CallRead url)) (\<lambda>_.
     case re_search (read_rx rt) url of
       None \<Rightarrow> io_raise (ParserException E_read_link url)
     | Some (m, g) \<Rightarrow>
         let f = (new_read url)\<lparr>read_id := JInt (py_int rt (the (g 1)))\<rparr>;
             query = (\<lambda>r. db_eq rt (key1 r) (read_id f))
         in
         io_bind (client_get (S ''https://www.bilibili.com/read/cv'' @ py_str rt (read_id f)) [])
           (\<lambda>r.
         let soup = resp_page r in
         io_bind (require_attr (up_name soup) (S ''href'') E_read_uid url) (\<lambda>href.
         let f = f\<lparr>uid := JStr (last_segment href)\<rparr> in
         io_bind (require_attr (meta_author soup) (S ''content'') E_read_user url) (\<lambda>author.
         let f = f\<lparr>user := JStr author\<rparr> in
         io_bind (require_attr (meta_description soup) (S ''content'') E_read_content url) (\<lambda>d.
         let f = f\<lparr>content_raw := JStr d\<rparr> in
         io_bind
           (case og_image soup of
              None \<Rightarrow> io_raise (ParserException E_read_mediaurls url)
            | Some attrs \<Rightarrow>
                (case map_of attrs (S ''content'') of
                   None \<Rightarrow> io_return f
                 | Some mediaurls \<Rightarrow>
                     if mediaurls \<noteq> []
                     then io_return ((set_mediaurls (JStr mediaurls) f)\<lparr>mediatype := JStr (S ''image'')\<rparr>)
                     else io_return f))
           (\<lambda>f.
         io_bind (require_attr (og_title soup) (S ''content'') E_read_title url) (\<lambda>title.
         with_world (\<lambda>w.
         io_bind (get_or_none Read_cache (\<lambda>r. query r \<and> fresh w Audio_cache r)) (\<lambda>cache.
         io_bind
           (case cache of
              Some c \<Rightarrow> io_return (payload c)
            | None \<Rightarrow>
                if \<not> article_holder soup then io_raise (ParserException E_read_article url)
                else
                  io_bind telegraph_publish (\<lambda>graphurl.
                  io_bind (cache_store Read_cache query (read_id f) JNull graphurl) (\<lambda>_.
                  io_return graphurl)))
           (\<lambda>graphurl.
         let f = f\<lparr>extra_markdown :=
                      JStr (S ''['' @ escape_markdown rt title @ S '']('' @ py_str rt graphurl @ S '')'')\<rparr>
         in
         io_bind (reply_parser rt (read_id f) read_reply_type) (\<lambda>r.
         io_return (f\<lparr>replycontent := Some r\<rparr>))))))))))))"

definition read_parser :: "pytables \<Rightarrow> str \<Rightarrow> (world, exn + read) io" where
  "read_parser rt url = safe_parser (read_body rt url)"

text \<open>\<^verbatim>\<open>dynamic_parser\<close>. The table \<^verbatim>\<open>detail_types_list\<close>, as membership tests.\<close>

datatype dtype = WORD | PIC | VIDEO | CLIP | ARTICLE | MUSIC | LIVE | SHARE | EPS | NONE

fun detail_types_list :: "dtype \<Rightarrow> json \<Rightarrow> bool" where
  "detail_types_list WORD t \<longleftrightarrow> eq_int t 1 \<or> eq_int t 4"
| "detail_types_list PIC t \<longleftrightarrow> eq_int t 2"
| "detail_types_list VIDEO t \<longleftrightarrow> eq_int t 8 \<or> eq_int t 512 \<or> in_range t 4000 4200"
| "detail_types_list CLIP t \<longleftrightarrow> eq_int t 16"
| "detail_types_list ARTICLE t \<longleftrightarrow> eq_int t 64"
| "detail_types_list MUSIC t \<longleftrightarrow> eq_int t 256"
| "detail_types_list LIVE t \<longleftrightarrow> in_range t 4200 4300"
| "detail_types_list SHARE t \<longleftrightarrow> in_range t 2048 2100"
| "detail_types_list EPS t \<longleftrightarrow> eq_int t 512 \<or> in_range t 4000 4200"
| "detail_types_list NONE t \<longleftrightarrow> eq_int t 2024 \<or> in_range t 4300 4400"

text \<open>
  What the status update takes from the sub-feed \<^verbatim>\<open>fu\<close>, lines 464 to 473; an exception
  object has none of these attributes.
\<close>

definition copy_sub :: "'a feed_scheme \<Rightarrow> dynamic \<Rightarrow> dynamic" where
  "copy_sub fu f =
     (let f = f\<lparr>user := user fu, uid := uid fu, extra_markdown := extra_markdown fu,
                mediathumb := mediathumb fu, mediatitle := mediatitle fu,
                mediaduration := mediaduration fu\<rparr>;
          f = set_mediaurls (JList (feed_mediaurls fu)) f
      in f\<lparr>mediatype := mediatype fu, mediaraws := mediaraws fu\<rparr>)"

definition sub_content :: "exn + 'a feed_scheme \<Rightarrow> exn + str" where
  "sub_content fu = (case fu of Inl err \<Rightarrow> Inl AttributeError | Inr a \<Rightarrow> feed_content a)"

definition sub_copy :: "exn + 'a feed_scheme \<Rightarrow> dynamic \<Rightarrow> exn + dynamic" where
  "sub_copy fu f = (case fu of Inl err \<Rightarrow> Inl AttributeError | Inr a \<Rightarrow> Inr (copy_sub a f))"

definition py_len :: "json \<Rightarrow> exn + nat" where
  "py_len v =
     (case v of JList xs \<Rightarrow> Inr (length xs) | JStr s \<Rightarrow> Inr (length s)
      | JObj kv \<Rightarrow> Inr (length kv) | _ \<Rightarrow> Inl TypeError)"

text \<open>Lines 384 to 419: the identifier, the detail from the cache or upstream, the cache write.\<close>

definition dynamic_fetch :: "pytables \<Rightarrow> str \<Rightarrow> (world, dynamic) io" where
  "dynamic_fetch rt url =
     (case re_search (dynamic_rx rt) url of
        None \<Rightarrow> io_raise (ParserException E_dynamic_link url)
      | Some (m, g) \<Rightarrow>
          let f = new_dynamic url;
              ident = JStr (the (g 1));
              query = (if has_infix (S ''type=2'') m then (\<lambda>r. db_eq rt (key2 r) ident)
                       else (\<lambda>r. db_eq rt (key1 r) ident))
          in
          with_world (\<lambda>w.
          io_bind (get_or_none Dynamic_cache (\<lambda>r. query r \<and> fresh w Dynamic_cache r)) (\<lambda>cache.
          io_bind
            (case cache of
               Some c \<Rightarrow> io_return (f\<lparr>detailcontent := payload c\<rparr>)
             | None \<Rightarrow>
                 io_bind (client_get
                     (S ''https://api.vc.bilibili.com/dynamic_svr/v1/dynamic_svr/get_dynamic_detail'')
                     (if has_infix (S ''type=2'') m \<or> has_infix (S ''h.bilibili.com'') m
                      then [(S ''rid'', ident), (S ''type'', JInt 2)]
                      else [(S ''dynamic_id'', ident)])) (\<lambda>r.
                 io_bind (io_lift (resp_json_of r)) (\<lambda>j.
                 io_bind (io_lift (gets j [S ''data'', S ''card''])) (\<lambda>c.
                   if \<not> truthy c then io_raise (ParserException E_dynamic_parse (resp_url r))
                   else io_return (f\<lparr>detailcontent := j\<rparr>)))))
            (\<lambda>f.
          io_bind (io_lift (ebind (detail_desc f) (\<lambda>d. py_item d (S ''dynamic_id'')))) (\<lambda>di.
          io_bind (io_lift (ebind (detail_desc f) (\<lambda>d. py_item d (S ''rid'')))) (\<lambda>ri.
          let f = f\<lparr>dynamic_id := di, rid := ri\<rparr> in
          io_bind (if cache = None
                   then cache_store Dynamic_cache query (dynamic_id f) (rid f) (detailcontent f)
                   else io_return ()) (\<lambda>_.
          io_return f)))))))"

text \<open>Lines 475 to 491: a picture or clip post.\<close>

definition dynamic_media :: "pytables \<Rightarrow> json \<Rightarrow> dynamic \<Rightarrow> exn + dynamic" where
  "dynamic_media rt ot f =
     ebind (card rt f) (\<lambda>c.
     ebind (gets c [S ''user'', S ''name'']) (\<lambda>name.
     ebind (gets c [S ''user'', S ''uid'']) (\<lambda>ui.
     ebind (ebind (py_get c (S ''item'')) (\<lambda>it. py_get_d it (S ''title'') (JStr []))) (\<lambda>title.
     ebind (ebind (py_get c (S ''item'')) (\<lambda>it. py_get_d it (S ''description'') (JStr []))) (\<lambda>d.
     let f = f\<lparr>user := name, uid := ui,
                content_raw := JStr (py_str rt title @ [10] @ py_str rt d)\<rparr> in
     ebind (add_on_card f) (\<lambda>aoc.
     ebind (py_len aoc) (\<lambda>n.
     ebind (if n \<noteq> 0
            then ebind (ebind (py_first aoc) (\<lambda>x. gets x [S ''reserve_attach_card'', S ''title'']))
                   (\<lambda>t. Inr (f\<lparr>extra_markdown := t\<rparr>))
            else Inr f) (\<lambda>f.
       if detail_types_list PIC ot then
         ebind (ebind (gets c [S ''item'', S ''pictures'']) py_iter) (\<lambda>pictures.
         ebind (emap (\<lambda>t. py_get t (S ''img_src'')) pictures) (\<lambda>urls.
           Inr ((set_mediaurls (JList urls) f)\<lparr>mediatype := JStr (S ''image'')\<rparr>)))
       else if detail_types_list CLIP ot then
         ebind (gets c [S ''item'', S ''video_playurl'']) (\<lambda>u.
         ebind (gets c [S ''item'', S ''cover'', S ''unclipped'']) (\<lambda>thumb.
           Inr ((set_mediaurls u f)\<lparr>mediathumb := thumb, mediatype := JStr (S ''video'')\<rparr>)))
       else Inr f))))))))"

text \<open>Lines 493 to 496 and 498 to 504: a text post and a share.\<close>

definition dynamic_word :: "pytables \<Rightarrow> dynamic \<Rightarrow> exn + dynamic" where
  "dynamic_word rt f =
     ebind (card rt f) (\<lambda>c.
     ebind (gets c [S ''user'', S ''uname'']) (\<lambda>uname.
     ebind (gets c [S ''user'', S ''uid'']) (\<lambda>ui.
     ebind (gets c [S ''item'', S ''content'']) (\<lambda>content.
       Inr (f\<lparr>user := uname, uid := ui, content_raw := content\<rparr>)))))"

definition dynamic_share :: "pytables \<Rightarrow> dynamic \<Rightarrow> exn + dynamic" where
  "dynamic_share rt f =
     ebind (card rt f) (\<lambda>c.
     ebind (gets c [S ''user'', S ''uname'']) (\<lambda>uname.
     ebind (gets c [S ''user'', S ''uid'']) (\<lambda>ui.
     ebind (gets c [S ''vest'', S ''content'']) (\<lambda>content.
     ebind (ebind (gets c [S ''sketch'', S ''title'']) (escape_markdown_val rt)) (\<lambda>title.
     ebind (ebind (gets c [S ''sketch'', S ''desc_text'']) (escape_markdown_val rt)) (\<lambda>d.
     ebind (gets c [S ''sketch'', S ''target_url'']) (\<lambda>target.
     ebind (gets c [S ''sketch'', S ''cover_url'']) (\<lambda>cover.
       let f = f\<lparr>user := uname, uid := ui, content_raw := content,
                  extra_markdown := JStr (S ''['' @ title @ [10] @ d @ S '']('' @ py_str rt target
                                          @ S '')'')\<rparr>
       in Inr ((set_mediaurls cover f)\<lparr>mediatype := JStr (S ''image'')\<rparr>)))))))))"

text \<open>
  Lines 440 to 506, the dispatch on \<^verbatim>\<open>origin_type\<close>. In the last branch the warning is
  built from \<^verbatim>\<open>f.url\<close> and \<^verbatim>\<open>f.card\<close>, and nothing else happens.
\<close>

definition dynamic_extra :: "pytables \<Rightarrow> dynamic \<Rightarrow> (world, dynamic) io" where
  "dynamic_extra rt f =
     io_bind (io_lift (origin_type f)) (\<lambda>ot.
       if detail_types_list MUSIC ot \<or> detail_types_list VIDEO ot \<or> detail_types_list LIVE ot
          \<or> detail_types_list ARTICLE ot then
         (if detail_types_list MUSIC ot then
            io_bind (io_lift (ebind (card rt f) (\<lambda>c. py_get c (S ''id'')))) (\<lambda>i.
            io_bind (audio_parser rt (S ''bilibili.com/audio/au'' @ py_str rt i)) (\<lambda>fu.
            io_bind (io_lift (sub_content fu)) (\<lambda>c.
              io_lift (sub_copy fu (f\<lparr>content_raw := JStr c\<rparr>)))))
          else if detail_types_list LIVE ot then
            io_bind (io_lift (ebind (card rt f) (\<lambda>c. py_get c (S ''roomid'')))) (\<lambda>i.
            io_bind (live_parser rt (S ''live.bilibili.com/'' @ py_str rt i)) (\<lambda>fu.
            io_bind (io_lift (sub_content fu)) (\<lambda>c.
              io_lift (sub_copy fu (f\<lparr>content_raw := JStr c\<rparr>)))))
          else if detail_types_list VIDEO ot then
            io_bind (io_lift (ebind (card rt f) (\<lambda>c. py_get c (S ''aid'')))) (\<lambda>a.
            io_bind (video_parser rt (S ''b23.tv/av'' @ py_str rt a)) (\<lambda>fu.
            io_bind (io_lift (ebind (card rt f) (\<lambda>c. py_get c (S ''new_desc'')))) (\<lambda>new_desc.
            io_bind (if truthy new_desc then io_return new_desc
                     else io_lift (ebind (sub_content fu) (\<lambda>c. Inr (JStr c)))) (\<lambda>c.
              io_lift (sub_copy fu (f\<lparr>content_raw := c\<rparr>))))))
          else if detail_types_list ARTICLE ot then
            io_bind (io_lift (ebind (card rt f) (\<lambda>c. py_get c (S ''id'')))) (\<lambda>i.
            io_bind (read_parser rt (S ''bilibili.com/read/cv'' @ py_str rt i)) (\<lambda>fu.
            io_bind (io_lift (sub_content fu)) (\<lambda>c.
              io_lift (sub_copy fu (f\<lparr>content_raw := JStr c\<rparr>)))))
          else io_return f)
       else if detail_types_list PIC ot \<or> detail_types_list CLIP ot then
         io_lift (dynamic_media rt ot f)
       else if detail_types_list WORD ot then io_lift (dynamic_word rt f)
       else if detail_types_list SHARE ot then io_lift (dynamic_share rt f)
       else io_bind (io_lift (card rt f)) (\<lambda>_. io_return f))"

text \<open>Lines 508 to 511.\<close>

definition dynamic_forward :: "pytables \<Rightarrow> dynamic \<Rightarrow> exn + dynamic" where
  "dynamic_forward rt f =
     ebind (has_forward f) (\<lambda>h.
       if h then
         ebind (forward_card rt f) (\<lambda>fc.
         ebind (gets fc [S ''user'', S ''uname'']) (\<lambda>u.
         ebind (gets fc [S ''user'', S ''uid'']) (\<lambda>i.
         ebind (gets fc [S ''item'', S ''content'']) (\<lambda>c.
           Inr (f\<lparr>forward_user := u, forward_uid := i, forward_content := c\<rparr>)))))
       else Inr f)"

definition dynamic_body :: "pytables \<Rightarrow> str \<Rightarrow> (world, dynamic) io" where
  "dynamic_body rt url =
     io_bind (log_call (CallDynamic url)) (\<lambda>_.
     io_bind (dynamic_fetch rt url) (\<lambda>f.
     io_bind (dynamic_extra rt f) (\<lambda>f.
     io_bind (io_lift (dynamic_forward rt f)) (\<lambda>f.
     io_bind (io_lift (oid f)) (\<lambda>oi.
     io_bind (io_lift (reply_type f)) (\<lambda>rtype.
     io_bind (reply_parser rt oi rtype) (\<lambda>r.
     io_return (f\<lparr>replycontent := Some r\<rparr>))))))))"

definition dynamic_parser :: "pytables \<Rightarrow> str \<Rightarrow> (world, exn + dynamic) io" where
  "dynamic_parser rt url = safe_parser (dynamic_body rt url)"

text \<open>
  \<^verbatim>\<open>feed_parser\<close>: the URL after redirects decides the resolver, whose return value
  (an object or an exception object) is returned as it is.
\<close>

definition feed_body :: "pytables \<Rightarrow> str \<Rightarrow> (world, exn + any_feed) io" where
  "feed_body rt url =
     io_bind (log_call (CallFeed url)) (\<lambda>_.
     io_bind (client_get url []) (\<lambda>r.
     let url = resp_url r in
       if found api_rx url then io_raise (ParserException E_url url)
       else if found th_rx url then
         io_bind (dynamic_parser rt url) (\<lambda>x. io_return (map_sum id Dynamic x))
       else if found (lit_str (S ''live.bilibili.com'')) url then
         io_bind (live_parser rt url) (\<lambda>x. io_return (map_sum id Live x))
       else if found (lit_str (S ''bilibili.com/audio'')) url then
         io_bind (audio_parser rt url) (\<lambda>x. io_return (map_sum id Audio x))
       else if found (lit_str (S ''bilibili.com/read'')) url then
         io_bind (read_parser rt url) (\<lambda>x. io_return (map_sum id Read x))
       else if found video_path_rx url then
         io_bind (video_parser rt url) (\<lambda>x. io_return (map_sum id Video x))
       else io_raise (ParserException E_url url)))"

text \<open>
  The decorated \<^verbatim>\<open>feed_parser\<close>; its own exception and the exception object a resolver
  returned are both just the returned value.
\<close>

definition feed_parser :: "pytables \<Rightarrow> str \<Rightarrow> (world, exn + any_feed) io" where
  "feed_parser rt url =
     io_bind (safe_parser (feed_body rt url)) (\<lambda>x.
       io_return (case x of Inl err \<Rightarrow> Inl err | Inr v \<Rightarrow> v))"

section \<open>The batch entry point \<^verbatim>\<open>biliparser\<close>\<close>

definition startswith :: "str \<Rightarrow> str \<Rightarrow> bool" where
  "startswith s p \<longleftrightarrow> take (length p) s = p"

text \<open>\<^verbatim>\<open>f"http://{url}" if not url.startswith(("http:", "https:")) else url\<close>\<close>

definition with_scheme :: "str \<Rightarrow> str" where
  "with_scheme url =
     (if \<not> (startswith url (S ''http:'') \<or> startswith url (S ''https:''))
      then S ''http://'' @ url else url)"

text \<open>
  \<^verbatim>\<open>asyncio.gather(*tasks)\<close>: one result per task, in the order of the tasks. The tasks
  are run one after the other here; how they interleave at their \<^verbatim>\<open>await\<close>s is not
  modelled.
\<close>

fun gather :: "('s, 'a) io list \<Rightarrow> ('s, 'a list) io" where
  "gather [] = io_return []"
| "gather (t # ts) = io_bind t (\<lambda>x. io_bind (gather ts) (\<lambda>xs. io_return (x # xs)))"

text \<open>
  The properties that the debug message of lines 883 to 896 reads from a resolved object,
  in the order of the message; the message is built before \<^verbatim>\<open>logger.debug\<close> is called.
\<close>

definition log_fields :: "pytables \<Rightarrow> any_feed \<Rightarrow> exn + unit" where
  "log_fields rt x =
     (case x of
        Dynamic f \<Rightarrow>
          ebind (dynamic_user_markdown rt f) (\<lambda>_.
          ebind (dynamic_content_markdown rt f) (\<lambda>_.
          ebind (feed_comment_markdown rt f) (\<lambda>_.
          ebind (feed_mediafilename rt f) (\<lambda>_. Inr ()))))
      | Audio f \<Rightarrow>
          ebind (feed_user_markdown rt f) (\<lambda>_.
          ebind (feed_content_markdown rt f) (\<lambda>_.
          ebind (feed_comment_markdown rt f) (\<lambda>_.
          ebind (feed_mediafilename rt f) (\<lambda>_. Inr ()))))
      | Live f \<Rightarrow>
          ebind (feed_user_markdown rt f) (\<lambda>_.
          ebind (feed_content_markdown rt f) (\<lambda>_.
          ebind (feed_comment_markdown rt f) (\<lambda>_.
          ebind (feed_mediafilename rt f) (\<lambda>_. Inr ()))))
      | Video f \<Rightarrow>
          ebind (feed_user_markdown rt f) (\<lambda>_.
          ebind (feed_content_markdown rt f) (\<lambda>_.
          ebind (feed_comment_markdown rt f) (\<lambda>_.
          ebind (feed_mediafilename rt f) (\<lambda>_. Inr ()))))
      | Read f \<Rightarrow>
          ebind (feed_user_markdown rt f) (\<lambda>_.
          ebind (feed_content_markdown rt f) (\<lambda>_.
          ebind (feed_comment_markdown rt f) (\<lambda>_.
          ebind (feed_mediafilename rt f) (\<lambda>_. Inr ())))))"

text \<open>The loop \<^verbatim>\<open>for num, f in enumerate(callbacks)\<close>.\<close>

fun log_all :: "pytables \<Rightarrow> (exn + any_feed) list \<Rightarrow> exn + unit" where
  "log_all rt [] = Inr ()"
| "log_all rt (f # fs) =
     ebind (case f of Inl err \<Rightarrow> Inr () | Inr x \<Rightarrow> log_fields rt x) (\<lambda>_. log_all rt fs)"

text \<open>\<^verbatim>\<open>biliparser(urls)\<close> for a string and for a list or tuple of strings.\<close>

datatype urls_arg = One str | Many "str list"

definition biliparser :: "pytables \<Rightarrow> urls_arg \<Rightarrow> (world, (exn + any_feed) list) io" where
  "biliparser rt arg =
     (let urls = (case arg of One url \<Rightarrow> [url] | Many us \<Rightarrow> us) in
      io_bind (gather (map (\<lambda>url. feed_parser rt (with_scheme url)) urls)) (\<lambda>callbacks.
      io_bind (io_lift (log_all rt callbacks)) (\<lambda>_.
      io_return callbacks)))"

section \<open>Concrete worlds\<close>

text \<open>
  An article page with every element the article resolver looks for, and an upstream that
  answers every request with that page and no JSON body.
\<close>

definition page55 :: page where
  "page55 =
     \<lparr>up_name = Some [(S ''href'', S ''//space.bilibili.com/7'')],
      meta_author = Some [(S ''content'', S ''ann'')],
      meta_description = Some [(S ''content'', S ''text'')],
      og_image = Some [(S ''content'', S ''http://x/a.jpg'')],
      og_title = Some [(S ''content'', S ''t'')],
      article_holder = True\<rparr>"

text \<open>
  A world at time 1000 in which the article cache expires after 10, the audio cache after
  100 and every other cache after 50. The article cache holds a row for article 55 that
  was created at 950; the reply cache holds a row for its comments created at 1000.
\<close>

definition row55 :: row where
  "row55 = \<lparr>key1 = JInt 55, key2 = JNull, payload = JStr (S ''https://telegra.ph/old''),
            created = 950\<rparr>"

definition world55 :: world where
  "world55 =
     \<lparr>tick = 0,
      clock = (\<lambda>_. 1000),
      http = (\<lambda>_ url params. Inr \<lparr>resp_url = url, resp_json = None, resp_page = page55\<rparr>),
      publish = (\<lambda>_. Inr (JStr (S ''https://telegra.ph/new''))),
      insert_conflict = (\<lambda>_. False),
      BILI_API = S ''https://api.bilibili.com'',
      timeout = (\<lambda>k. if k = Read_cache then 10 else if k = Audio_cache then 100 else 50),
      cache = (\<lambda>k. if k = Read_cache then [row55]
                    else if k = Reply_cache
                      then [\<lparr>key1 = JInt 55, key2 = JInt 12,
                             payload = JObj [(S ''data'', JObj [(S ''top'', JNull)])],
                             created = 1000\<rparr>]
                    else []),
      trace = []\<rparr>"

text \<open>
  The detail of a status update with the given type codes, card text and identifiers, and
  an object that holds it.
\<close>

definition detail :: "int \<Rightarrow> int \<Rightarrow> str \<Rightarrow> int \<Rightarrow> int \<Rightarrow> json" where
  "detail tp orig text di ri =
     JObj [(S ''data'',
       JObj [(S ''card'',
         JObj [(S ''desc'', JObj [(S ''type'', JInt tp), (S ''orig_type'', JInt orig),
                                 (S ''dynamic_id'', JInt di), (S ''rid'', JInt ri)]),
               (S ''card'', JStr text),
               (S ''display'', JObj [])])])]"

definition update_with :: "json \<Rightarrow> dynamic" where
  "update_with d = (new_dynamic [])\<lparr>detailcontent := d\<rparr>"

text \<open>The view of a video with the given \<^verbatim>\<open>aid\<close>.\<close>

definition video_view_of :: "int \<Rightarrow> json" where
  "video_view_of a =
     JObj [(S ''data'',
       JObj [(S ''bvid'', JStr (S ''BV1'')), (S ''aid'', JInt a), (S ''cid'', JInt 1),
             (S ''owner'', JObj [(S ''name'', JStr (S ''bob'')), (S ''mid'', JInt 3)]),
             (S ''dynamic'', JStr (S ''hello'')), (S ''title'', JStr (S ''T'')),
             (S ''pic'', JStr (S ''http://x/p.jpg''))])]"

text \<open>
  A world with empty caches. The upstream knows the status updates 9 (a video post of
  video 7) and 10 (type 2024), the videos 7 and 8, and answers a request for comments
  with a \<^verbatim>\<open>data\<close> entry, except for the comments of video 8, where the body has only an
  error code. Any other request is answered with its own URL and no JSON body.
\<close>

definition upstream :: "str \<Rightarrow> (str \<times> json) list \<Rightarrow> exn + response" where
  "upstream url params =
     (if url = S ''https://api.vc.bilibili.com/dynamic_svr/v1/dynamic_svr/get_dynamic_detail'' then
        Inr \<lparr>resp_url = url,
             resp_json = Some (if param params (S ''dynamic_id'') = JStr (S ''9'')
                               then detail 8 0 card7_text 9 90
                               else detail 2024 0 [123, 125] 10 100),
             resp_page = page55\<rparr>
      else if url = S ''https://api.bilibili.com/x/web-interface/view'' then
        Inr \<lparr>resp_url = url,
             resp_json = Some (if param params (S ''aid'') = JStr (S ''8'')
                               then video_view_of 8 else video_view_of 7),
             resp_page = page55\<rparr>
      else if url = S ''https://api.bilibili.com/x/v2/reply/main'' then
        Inr \<lparr>resp_url = url,
             resp_json = Some (if param params (S ''oid'') = JInt 8
                               then JObj [(S ''code'', JInt 12002)]
                               else JObj [(S ''data'', JObj [(S ''top'', JNull)])]),
             resp_page = page55\<rparr>
      else Inr \<lparr>resp_url = url, resp_json = None, resp_page = page55\<rparr>)"

definition world0 :: world where
  "world0 =
     \<lparr>tick = 0,
      clock = (\<lambda>_. 1000),
      http = (\<lambda>_. upstream),
      publish = (\<lambda>_. Inr (JStr (S ''https://telegra.ph/new''))),
      insert_conflict = (\<lambda>_. False),
      BILI_API = S ''https://api.bilibili.com'',
      timeout = (\<lambda>_. 50),
      cache = (\<lambda>_. []),
      trace = []\<rparr>"

section \<open>Objects with memoised properties\<close>

text \<open>
  The properties declared with \<^verbatim>\<open>cached_property\<close> store their value in the instance;
  \<^verbatim>\<open>content\<close> and \<^verbatim>\<open>mediaurls\<close> are declared with \<^verbatim>\<open>@property @lru_cache(maxsize=1)\<close>:
  each has one cache for the whole class, which holds the value of the last call and is
  keyed by the instance.
\<close>

datatype derived = User_markdown | Content_markdown | Has_comment | Comment | Comment_markdown
  | Mediafilename | Url

datatype pval = VStr str | VBool bool | VStrs "str list"

text \<open>
  The objects by address, the values stored in each instance by \<^verbatim>\<open>cached_property\<close>, and
  the entry of each of the two \<^verbatim>\<open>lru_cache\<close>s.
\<close>

record heap =
  objs :: "nat \<Rightarrow> feed"
  dicts :: "nat \<Rightarrow> derived \<Rightarrow> pval option"
  lru_content :: "(nat \<times> str) option"
  lru_mediaurls :: "(nat \<times> json list) option"

definition new_heap :: heap where
  "new_heap = \<lparr>objs = (\<lambda>_. new_feed []), dicts = (\<lambda>_ _. None), lru_content = None,
               lru_mediaurls = None\<rparr>"

text \<open>An assignment to an attribute of the object at \<open>a\<close>.\<close>

definition assign :: "nat \<Rightarrow> (feed \<Rightarrow> feed) \<Rightarrow> heap \<Rightarrow> heap" where
  "assign a upd h = h\<lparr>objs := (objs h)(a := upd (objs h a))\<rparr>"

text \<open>\<^verbatim>\<open>f.content = v\<close> and \<^verbatim>\<open>f.mediaurls = v\<close>\<close>

definition put_content :: "nat \<Rightarrow> json \<Rightarrow> heap \<Rightarrow> heap" where
  "put_content a v = assign a (\<lambda>f. f\<lparr>content_raw := v\<rparr>)"

definition put_mediaurls :: "nat \<Rightarrow> json \<Rightarrow> heap \<Rightarrow> heap" where
  "put_mediaurls a v = assign a (set_mediaurls v)"

text \<open>Reading \<^verbatim>\<open>f.content\<close> and \<^verbatim>\<open>f.mediaurls\<close>: a hit needs the entry of this instance.\<close>

definition get_content :: "nat \<Rightarrow> (heap, str) io" where
  "get_content a h =
     (case lru_content h of
        Some (b, v) \<Rightarrow>
          if b = a then (Inr v, h)
          else (case feed_content (objs h a) of
                  Inl e \<Rightarrow> (Inl e, h)
                | Inr c \<Rightarrow> (Inr c, h\<lparr>lru_content := Some (a, c)\<rparr>))
      | None \<Rightarrow>
          (case feed_content (objs h a) of
             Inl e \<Rightarrow> (Inl e, h)
           | Inr c \<Rightarrow> (Inr c, h\<lparr>lru_content := Some (a, c)\<rparr>)))"

definition get_mediaurls :: "nat \<Rightarrow> (heap, json list) io" where
  "get_mediaurls a h =
     (case lru_mediaurls h of
        Some (b, v) \<Rightarrow>
          if b = a then (Inr v, h)
          else (Inr (feed_mediaurls (objs h a)),
                h\<lparr>lru_mediaurls := Some (a, feed_mediaurls (objs h a))\<rparr>)
      | None \<Rightarrow>
          (Inr (feed_mediaurls (objs h a)),
           h\<lparr>lru_mediaurls := Some (a, feed_mediaurls (objs h a))\<rparr>))"

text \<open>
  \<^verbatim>\<open>cached_property\<close>: the stored value if there is one, else the method is run and its
  value stored; nothing is stored when it raises.
\<close>

definition cached :: "derived \<Rightarrow> (nat \<Rightarrow> (heap, pval) io) \<Rightarrow> nat \<Rightarrow> (heap, pval) io" where
  "cached d method a h =
     (case dicts h a d of
        Some v \<Rightarrow> (Inr v, h)
      | None \<Rightarrow>
          (case method a h of
             (Inl e, h') \<Rightarrow> (Inl e, h')
           | (Inr v, h') \<Rightarrow> (Inr v, h'\<lparr>dicts := (dicts h')(a := (dicts h' a)(d \<mapsto> v))\<rparr>)))"

definition get_user_markdown :: "pytables \<Rightarrow> nat \<Rightarrow> (heap, pval) io" where
  "get_user_markdown rt =
     cached User_markdown (\<lambda>a h. (map_sum id VStr (feed_user_markdown rt (objs h a)), h))"

definition get_content_markdown :: "pytables \<Rightarrow> nat \<Rightarrow> (heap, pval) io" where
  "get_content_markdown rt =
     cached Content_markdown
       (\<lambda>a. io_bind (get_content a) (\<lambda>c. io_return (VStr (render_content_markdown rt c))))"

definition get_has_comment :: "nat \<Rightarrow> (heap, pval) io" where
  "get_has_comment =
     cached Has_comment (\<lambda>a h. (map_sum id VBool (feed_has_comment (objs h a)), h))"

definition get_top_comments :: "derived \<Rightarrow> (json \<Rightarrow> exn + str) \<Rightarrow> nat \<Rightarrow> (heap, pval) io" where
  "get_top_comments d line =
     cached d (\<lambda>a. io_bind (get_has_comment a) (\<lambda>has h.
       (map_sum id VStr (top_comments_if line (has = VBool True) (objs h a)), h)))"

definition get_comment :: "pytables \<Rightarrow> nat \<Rightarrow> (heap, pval) io" where
  "get_comment rt = get_top_comments Comment (comment_line rt)"

definition get_comment_markdown :: "pytables \<Rightarrow> nat \<Rightarrow> (heap, pval) io" where
  "get_comment_markdown rt = get_top_comments Comment_markdown (comment_markdown_line rt)"

definition get_mediafilename :: "pytables \<Rightarrow> nat \<Rightarrow> (heap, pval) io" where
  "get_mediafilename rt =
     cached Mediafilename (\<lambda>a h. (map_sum id VStrs (feed_mediafilename rt (objs h a)), h))"

definition get_url :: "nat \<Rightarrow> (heap, pval) io" where
  "get_url = cached Url (\<lambda>a h. (Inr (VStr (feed_url (objs h a))), h))"

section \<open>What a computation does to the record of invocations\<close>

text \<open>
  \<open>keeps m\<close>: the computation starts no resolver; \<open>grows m\<close>: it only adds invocations;
  \<open>begins c m\<close>: the first thing it adds is \<open>c\<close>.
\<close>

definition keeps :: "(world, 'a) io \<Rightarrow> bool" where
  "keeps m \<longleftrightarrow> (\<forall>w. trace (snd (m w)) = trace w)"

definition grows :: "(world, 'a) io \<Rightarrow> bool" where
  "grows m \<longleftrightarrow> (\<forall>w. \<exists>tr. trace (snd (m w)) = trace w @ tr)"


section \<open>Laws of the computations\<close>

lemma ebind_Inr [simp]: "ebind (Inr x) f = f x"
  by (simp add: ebind_def)

lemma ebind_Inl [simp]: "ebind (Inl e) f = Inl e"
  by (simp add: ebind_def)

lemma io_bind_return [simp]: "io_bind (io_return x) f = f x"
  by (rule ext) (simp add: io_bind_def io_return_def)

lemma io_bind_raise [simp]: "io_bind (io_raise e) f = io_raise e"
  by (rule ext) (simp add: io_bind_def io_raise_def)

lemma io_lift_Inr [simp]: "io_lift (Inr x) = io_return x"
  by (rule ext) (simp add: io_lift_def io_return_def)

lemma io_lift_Inl [simp]: "io_lift (Inl e) = io_raise e"
  by (rule ext) (simp add: io_lift_def io_raise_def)

lemma io_return_apply [simp]: "io_return x s = (Inr x, s)"
  by (simp add: io_return_def)

lemma io_raise_apply [simp]: "io_raise e s = (Inl e, s)"
  by (simp add: io_raise_def)

lemma io_bind_apply: "io_bind m f s = (case m s of (Inl e, s') \<Rightarrow> (Inl e, s') | (Inr x, s') \<Rightarrow> f x s')"
  by (simp add: io_bind_def)

lemma io_bind_Inr: "m s = (Inr x, s') \<Longrightarrow> io_bind m f s = f x s'"
  by (simp add: io_bind_def)

lemma io_bind_Inl: "m s = (Inl e, s') \<Longrightarrow> io_bind m f s = (Inl e, s')"
  by (simp add: io_bind_def)

lemma with_world_apply [simp]: "with_world f w = f w w"
  by (simp add: with_world_def)

lemma safe_parser_Inr: "func s = (Inr x, s') \<Longrightarrow> safe_parser func s = (Inr (Inr x), s')"
  by (simp add: safe_parser_def try_again_def)

lemma safe_parser_Inl:
  "func s = (Inl e, s') \<Longrightarrow> e \<noteq> IntegrityError \<Longrightarrow> safe_parser func s = (Inr (Inl e), s')"
  by (simp add: safe_parser_def try_again_def)

section \<open>Properties of the regular expressions and text helpers\<close>
lemma re_sub_class:
  "re_sub (Grp 1 (Cls p)) (\<lambda>(m, g). 92 # the (g 1)) s
     = concat (map (\<lambda>c. if p c then [92, c] else [c]) s)"
proof (induction s)
  case Nil
  show ?case by (simp add: re_sub.simps [of _ _ "[]"] rx_match_at_def)
next
  case (Cons c cs)
  then show ?case
    by (subst re_sub.simps) (simp add: rx_match_at_def)
qed

lemma re_sub_crlf: "re_sub (Seq (Lit 13) (Lit 10)) (\<lambda>_. [10]) s = sub_crlf s"
proof (induction s rule: sub_crlf.induct)
  case 1
  show ?case by (simp add: re_sub.simps [of _ _ "[]"] rx_match_at_def)
next
  case (2 c)
  show ?case by (simp add: re_sub.simps [of _ _ "[c]"] re_sub.simps [of _ _ "[]"] rx_match_at_def)
next
  case (3 c d cs)
  show ?case
    by (subst re_sub.simps) (use 3 in \<open>simp add: rx_match_at_def\<close>)
qed

lemma rep_nl_run:
  "rep_try (\<lambda>c. c = 10) 0 None s (\<lambda>r. case r of [] \<Rightarrow> None | x # xs \<Rightarrow> if x = 10 then Some (xs, g) else None)
   = (if s \<noteq> [] \<and> hd s = 10 then Some (dropWhile (\<lambda>c. c = 10) (tl s), g) else None)"
proof (induction s)
  case Nil
  show ?case by simp
next
  case (Cons c cs)
  show ?case using Cons by (cases cs) (auto)
qed

lemma nl_match_at:
  "rx_match_at (Seq (Rep (\<lambda>c. c = 10) 0 None) (Lit 10)) s
     = (if s \<noteq> [] \<and> hd s = 10 then Some (dropWhile (\<lambda>c. c = 10) (tl s), (\<lambda>_. None)) else None)"
  unfolding rx_match_at_def by (simp add: rep_nl_run)


lemma re_sub_nl_step:
  "re_sub nl_rx (\<lambda>_. [10]) s =
     (case s of [] \<Rightarrow> []
      | c # cs \<Rightarrow> if c = 10 then 10 # re_sub nl_rx (\<lambda>_. [10]) (dropWhile (\<lambda>c. c = 10) cs)
                 else c # re_sub nl_rx (\<lambda>_. [10]) cs)"
proof (cases s)
  case Nil
  then show ?thesis by (simp add: re_sub.simps [of _ _ "[]"] nl_rx_def nl_match_at)
next
  case (Cons c cs)
  have "length (dropWhile (\<lambda>c. c = 10) cs) \<le> length cs" by (rule length_dropWhile_le)
  then show ?thesis using Cons
    by (subst re_sub.simps) (simp add: nl_rx_def nl_match_at)
qed

lemma re_sub_nl_Nil [simp]: "re_sub nl_rx (\<lambda>_. [10]) [] = []"
  by (subst re_sub_nl_step) simp















lemma html_unescape_no_amp: "38 \<notin> set s \<Longrightarrow> html_unescape rt s = s"
  by (simp add: html_unescape_def)

lemma escape_markdown_concat:
  "escape_markdown rt text =
     concat (map (\<lambda>c. if reserved c then [92, c] else [c]) (html_unescape rt text))"
proof (cases "text = []")
  case True
  then show ?thesis by (simp add: escape_markdown_def html_unescape_def)
next
  case False
  then show ?thesis by (simp add: escape_markdown_def re_sub_class del: One_nat_def)
qed

lemma concat_no_reserved:
  "\<forall>c\<in>set s. \<not> reserved c \<Longrightarrow> concat (map (\<lambda>c. if reserved c then [92, c] else [c]) s) = s"
  by (induction s) auto



lemma shrink_line_unfold:
  "shrink_line text = (if text \<noteq> [] then re_sub nl_rx (\<lambda>_. [10]) (sub_crlf (strip text)) else [])"
  by (simp add: shrink_line_def nl_rx_def re_sub_crlf)



lemma emap_Inr: "emap (\<lambda>x. Inr (g x)) xs = Inr (map g xs)"
  by (induction xs) (simp_all add: ebind_def)


section \<open>Running the resolvers on concrete worlds\<close>

text \<open>The equations that a run on a concrete world unfolds.\<close>

lemmas run_defs =
  truthy_def ebind_def py_get_d_def py_get_def py_item_def py_first_def py_last_def
  py_str_def escape_markdown_val_def shrink_line_val_def new_feed_def make_user_markdown_def
  feed_user_markdown_def feed_content_def render_content_markdown_def
  feed_content_markdown_def feed_has_comment_def top_comments_if_def top_comments_def
  comment_line_def feed_comment_def comment_markdown_line_def feed_comment_markdown_def
  feed_mediaurls_def set_mediaurls_def get_filename_val_def feed_mediafilename_def
  feed_url_def io_return_def io_raise_def io_lift_def io_bind_def try_again_def
  safe_parser_def now_def advance_def log_call_def client_get_def resp_json_of_def
  select_one_def get_or_none_def fresh_def save_row_def insert_row_def cache_store_def
  py_int_def db_key_def db_eq_def new_dynamic_def as_int_def eq_int_def in_range_def
  detail_card_def detail_desc_def json_loads_val_def forward_card_def has_forward_def
  forward_type_def origin_type_def reply_type_of_def reply_type_def oid_def card_def
  add_on_card_def dynamic_user_def dynamic_user_markdown_def py_iter_def py_iadd_def
  dynamic_content_def dynamic_content_markdown_def dynamic_url_def new_audio_def
  audio_reply_type_def audio_url_def new_live_def live_url_def new_video_def
  video_reply_type_def video_url_def new_read_def read_reply_type_def read_url_def
  E_dynamic_link_def E_dynamic_parse_def E_audio_link_def E_audio_parse_def E_live_link_def
  E_live_parse_def E_live_content_def E_video_link_def E_bangumi_parse_def E_video_parse_def
  E_video_content_def E_read_link_def E_read_uid_def E_read_user_def E_read_content_def
  E_read_mediaurls_def E_read_title_def E_read_article_def E_url_def digits_def path_id_def
  dynamic_rx_def audio_rx_def live_rx_def video_rx_def read_rx_def api_rx_def th_rx_def
  video_path_rx_def found_def  reply_query_def reply_body_def reply_parser_def
  audio_body_def audio_parser_def live_body_def live_parser_def param_def video_bangumi_def
  video_view_def video_body_def video_parser_def require_attr_def last_segment_def
  telegraph_publish_def read_body_def read_parser_def copy_sub_def sub_content_def
  sub_copy_def py_len_def dynamic_fetch_def dynamic_media_def dynamic_word_def
  dynamic_share_def dynamic_extra_def dynamic_forward_def dynamic_body_def
  dynamic_parser_def feed_body_def feed_parser_def startswith_def with_scheme_def
  log_fields_def biliparser_def detail_def update_with_def video_view_of_def upstream_def
  ends_with_newline_def card7_text_def card2_text_def card_hi_text_def sample_loads_def S_def isspace_def
  strip_def ascii_alnum_def is_word_def is_digit_def ieq_def rx_match_at_def
  int_of_digits_def reserved_def
  feed.defs dynamic.defs audio.defs live.defs video.defs read.defs
  io_bind_apply dec.simps escape_markdown_concat html_unescape_no_amp
  shrink_line_unfold re_sub_nl_step Let_def

lemmas sample_defs = sample_tables_def world0_def world55_def row55_def page55_def

section \<open>The invocations a resolver records\<close>

named_theorems keeps_intros
named_theorems grows_intros

lemma keeps_return [keeps_intros]: "keeps (io_return x)"
  by (simp add: keeps_def)

lemma keeps_raise [keeps_intros]: "keeps (io_raise e)"
  by (simp add: keeps_def)

lemma keeps_lift [keeps_intros]: "keeps (io_lift r)"
  by (simp add: keeps_def io_lift_def)

lemma keeps_bind [keeps_intros]: "keeps m \<Longrightarrow> (\<And>x. keeps (f x)) \<Longrightarrow> keeps (io_bind m f)"
  unfolding keeps_def io_bind_def
  by (auto split: prod.splits sum.splits) (metis snd_conv)+

lemma keeps_with_world [keeps_intros]: "(\<And>w. keeps (f w)) \<Longrightarrow> keeps (with_world f)"
  by (simp add: keeps_def)

lemma keeps_client_get [keeps_intros]: "keeps (client_get url params)"
  by (simp add: keeps_def client_get_def advance_def)

lemma keeps_get_or_none [keeps_intros]: "keeps (get_or_none k q)"
  by (simp add: keeps_def get_or_none_def advance_def)

lemma keeps_save_row [keeps_intros]: "keeps (save_row k r c)"
  by (simp add: keeps_def save_row_def advance_def)

lemma keeps_insert_row [keeps_intros]: "keeps (insert_row k k1 k2 c)"
  by (simp add: keeps_def insert_row_def advance_def)

lemma keeps_telegraph_publish [keeps_intros]: "keeps telegraph_publish"
  by (simp add: keeps_def telegraph_publish_def advance_def)

lemma keeps_if [keeps_intros]: "keeps a \<Longrightarrow> keeps b \<Longrightarrow> keeps (if c then a else b)"
  by simp

lemma keeps_case_option [keeps_intros]:
  "keeps a \<Longrightarrow> (\<And>x. keeps (b x)) \<Longrightarrow> keeps (case v of None \<Rightarrow> a | Some x \<Rightarrow> b x)"
  by (cases v) simp_all

lemma keeps_cache_store [keeps_intros]: "keeps (cache_store k q k1 k2 c)"
  unfolding cache_store_def by (intro keeps_intros)

lemma keeps_require_attr [keeps_intros]: "keeps (require_attr tag k msg url)"
  unfolding require_attr_def by (intro keeps_intros)

lemma keeps_grows: "keeps m \<Longrightarrow> grows m"
  by (simp add: keeps_def grows_def)

lemma log_then_keeps:
  "keeps rest \<Longrightarrow> trace (snd (io_bind (log_call c) (\<lambda>_. rest) w)) = trace w @ [c]"
  by (simp add: io_bind_apply log_call_def keeps_def)

lemma reply_body_trace:
  "trace (snd (reply_body rt oi t w)) = trace w @ [CallReply oi t]"
  unfolding reply_body_def by (rule log_then_keeps) (intro keeps_intros)

lemma reply_parser_trace:
  "last (trace (snd (reply_parser rt oi t w))) = CallReply oi t"
proof -
  obtain r w1 where b1: "reply_body rt oi t w = (r, w1)" by (cases "reply_body rt oi t w")
  obtain r2 w2 where b2: "reply_body rt oi t w1 = (r2, w2)" by (cases "reply_body rt oi t w1")
  have t1: "trace w1 = trace w @ [CallReply oi t]" using reply_body_trace [of rt oi t w] b1 by simp
  have t2: "trace w2 = trace w1 @ [CallReply oi t]" using reply_body_trace [of rt oi t w1] b2 by simp
  show ?thesis using b1 b2 t1 t2
    by (cases r; cases r2) (auto simp: reply_parser_def safe_parser_def try_again_def)
qed


lemma forward_type_replycontent [simp]:
  "forward_type (f\<lparr>replycontent := x\<rparr>) = forward_type f"
  by (simp add: forward_type_def detail_desc_def detail_card_def)

lemma oid_replycontent [simp]: "oid (f\<lparr>replycontent := x\<rparr>) = oid f"
  by (simp add: oid_def cong: if_cong)

lemma reply_type_replycontent [simp]: "reply_type (f\<lparr>replycontent := x\<rparr>) = reply_type f"
  by (simp add: reply_type_def)

lemma dynamic_body_reply:
  assumes "fst (dynamic_body rt url w) = Inr f"
  shows "\<exists>oi t. oid f = Inr oi \<and> reply_type f = Inr t
           \<and> last (trace (snd (dynamic_body rt url w))) = CallReply oi t"
proof -
  let ?w0 = "w\<lparr>trace := trace w @ [CallDynamic url]\<rparr>"
  obtain r1 w1 where s1: "dynamic_fetch rt url ?w0 = (r1, w1)" by (cases "dynamic_fetch rt url ?w0")
  from assms s1 obtain f1 where r1: "r1 = Inr f1"
    by (cases r1) (auto simp: dynamic_body_def io_bind_apply log_call_def)
  obtain r2 w2 where s2: "dynamic_extra rt f1 w1 = (r2, w2)" by (cases "dynamic_extra rt f1 w1")
  from assms s1 r1 s2 obtain f2 where r2: "r2 = Inr f2"
    by (cases r2) (auto simp: dynamic_body_def io_bind_apply log_call_def)
  from assms s1 r1 s2 r2 obtain f3 where r3: "dynamic_forward rt f2 = Inr f3"
    by (cases "dynamic_forward rt f2") (auto simp: dynamic_body_def io_bind_apply log_call_def)
  from assms s1 r1 s2 r2 r3 obtain oi where o: "oid f3 = Inr oi"
    by (cases "oid f3") (auto simp: dynamic_body_def io_bind_apply log_call_def)
  from assms s1 r1 s2 r2 r3 o obtain t where t: "reply_type f3 = Inr t"
    by (cases "reply_type f3") (auto simp: dynamic_body_def io_bind_apply log_call_def)
  obtain r w' where s5: "reply_parser rt oi t w2 = (r, w')" by (cases "reply_parser rt oi t w2")
  have r_val: "\<exists>v. r = Inr v"
    using s5 by (auto simp: reply_parser_def safe_parser_def split: prod.splits sum.splits)
  then obtain v where v: "r = Inr v" by blast
  have res: "dynamic_body rt url w = (Inr (f3\<lparr>replycontent := Some v\<rparr>), w')"
    using s1 r1 s2 r2 r3 o t s5 v by (simp add: dynamic_body_def io_bind_apply log_call_def)
  have "last (trace w') = CallReply oi t"
    using reply_parser_trace [of rt oi t w2] s5 by simp
  then show ?thesis using res assms o t by auto
qed

lemma grows_return [grows_intros]: "grows (io_return x)"
  by (simp add: grows_def)

lemma grows_raise [grows_intros]: "grows (io_raise e)"
  by (simp add: grows_def)

lemma grows_lift [grows_intros]: "grows (io_lift r)"
  by (simp add: grows_def io_lift_def)

lemma grows_bind [grows_intros]:
  assumes "grows m" and "\<And>x. grows (f x)"
  shows "grows (io_bind m f)"
  unfolding grows_def
proof
  fix w
  obtain r w1 where m: "m w = (r, w1)" by (cases "m w")
  from assms(1) m obtain t1 where t1: "trace w1 = trace w @ t1"
    unfolding grows_def by (metis snd_conv)
  show "\<exists>tr. trace (snd (io_bind m f w)) = trace w @ tr"
  proof (cases r)
    case (Inl e)
    then show ?thesis using m t1 by (simp add: io_bind_apply)
  next
    case (Inr x)
    from assms(2) [of x] obtain t2 where "trace (snd (f x w1)) = trace w1 @ t2"
      unfolding grows_def by blast
    then show ?thesis using m t1 Inr by (simp add: io_bind_apply)
  qed
qed

lemma grows_with_world [grows_intros]: "(\<And>w. grows (f w)) \<Longrightarrow> grows (with_world f)"
  by (simp add: grows_def)

lemma grows_log_call [grows_intros]: "grows (log_call c)"
  by (simp add: grows_def log_call_def)

lemma grows_client_get [grows_intros]: "grows (client_get url params)"
  by (simp add: grows_def client_get_def advance_def)

lemma grows_get_or_none [grows_intros]: "grows (get_or_none k q)"
  by (simp add: grows_def get_or_none_def advance_def)

lemma grows_cache_store [grows_intros]: "grows (cache_store k q k1 k2 c)"
  by (rule keeps_grows) (rule keeps_cache_store)

lemma grows_if [grows_intros]: "grows a \<Longrightarrow> grows b \<Longrightarrow> grows (if c then a else b)"
  by simp

lemma grows_case_option [grows_intros]:
  "grows a \<Longrightarrow> (\<And>x. grows (b x)) \<Longrightarrow> grows (case v of None \<Rightarrow> a | Some x \<Rightarrow> b x)"
  by (cases v) simp_all

lemma grows_case_prod [grows_intros]:
  "(\<And>a b. grows (f a b)) \<Longrightarrow> grows (case p of (a, b) \<Rightarrow> f a b)"
  by (cases p) simp

lemma grows_safe_parser [grows_intros]:
  assumes "grows m"
  shows "grows (safe_parser m)"
  unfolding grows_def
proof
  fix w
  obtain r w1 where m: "m w = (r, w1)" by (cases "m w")
  obtain r2 w2 where m2: "m w1 = (r2, w2)" by (cases "m w1")
  from assms m obtain t1 where t1: "trace w1 = trace w @ t1"
    unfolding grows_def by (metis snd_conv)
  from assms m2 obtain t2 where t2: "trace w2 = trace w1 @ t2"
    unfolding grows_def by (metis snd_conv)
  show "\<exists>tr. trace (snd (safe_parser m w)) = trace w @ tr"
    using m m2 t1 t2 by (cases r; cases r2) (auto simp: safe_parser_def try_again_def)
qed



lemma grows_reply_parser [grows_intros]: "grows (reply_parser rt oi t)"
  unfolding reply_parser_def reply_body_def
  apply (rule grows_safe_parser)
  apply (rule grows_bind)
   apply (rule grows_log_call)
  apply (rule keeps_grows)
  apply (intro keeps_intros)
  done





lemma content_raw_copy_sub [simp]: "content_raw (copy_sub v f) = content_raw f"
  by (simp add: copy_sub_def set_mediaurls_def Let_def)


lemma detailcontent_copy_sub [simp]: "detailcontent (copy_sub v f) = detailcontent f"
  by (cases "feed_mediaurls v") (simp_all add: copy_sub_def set_mediaurls_def Let_def)







section \<open>Runs of the status-update resolver\<close>

lemma dyn9:
  "(case dynamic_body sample_tables (S ''t.bilibili.com/9'') world0 of
      (Inr f, w') \<Rightarrow>
        detailcontent f = detail 8 0 card7_text 9 90 \<and> dynamic_id f = JInt 9 \<and> rid f = JInt 90
        \<and> trace w' = [CallDynamic (S ''t.bilibili.com/9''), CallVideo (S ''b23.tv/av7''),
                       CallReply (JInt 7) (JInt 1), CallReply (JInt 90) (JInt 1)]
    | (Inl e, w') \<Rightarrow> False)"
  by (simp add: run_defs sample_defs)

lemma dyn10:
  "(case dynamic_body sample_tables (S ''t.bilibili.com/10'') world0 of
      (Inr f, w') \<Rightarrow>
        detailcontent f = detail 2024 0 [123, 125] 10 100 \<and> dynamic_id f = JInt 10
        \<and> rid f = JInt 100
        \<and> trace w' = [CallDynamic (S ''t.bilibili.com/10''), CallReply (JInt 100) JNull]
    | (Inl e, w') \<Rightarrow> False)"
  by (simp add: run_defs sample_defs)

lemma forward_type_detail:
  "detailcontent f = detail tp orig text di ri \<Longrightarrow> forward_type f = Inr (JInt tp)"
  by (simp add: forward_type_def detail_desc_def detail_card_def detail_def py_item_def S_def)

lemma origin_type_detail:
  "detailcontent f = detail tp orig text di ri \<Longrightarrow>
     origin_type f = Inr (JInt (if orig \<noteq> 0 then orig else tp))"
  by (simp add: origin_type_def has_forward_def forward_type_def detail_desc_def detail_card_def
      detail_def py_item_def truthy_def S_def)

lemma oid_detail:
  "detailcontent f = detail tp orig text di ri \<Longrightarrow>
     oid f = Inr (if tp = 1 \<or> tp = 4 \<or> (4200 \<le> tp \<and> tp < 4300) \<or> (2048 \<le> tp \<and> tp < 2100)
                  then dynamic_id f else rid f)"
  by (simp add: oid_def forward_type_detail eq_int_def in_range_def as_int_def)






section \<open>Markdown escaping\<close>


text \<open>
  Claim C8, as amended. \<^verbatim>\<open>escape_markdown\<close> first decodes the HTML character references
  of its input (\<^verbatim>\<open>html.unescape\<close>); in the decoded text every reserved character is
  prefixed with exactly one backslash and nothing else changes. On an input that contains
  neither a reserved character nor an ampersand the function is the identity, hence
  idempotent there.
\<close>

theorem escape_markdown_decodes_then_escapes:
  "escape_markdown rt text =
     concat (map (\<lambda>c. if reserved c then [92, c] else [c]) (html_unescape rt text))
   \<and> (38 \<notin> set text \<and> (\<forall>c\<in>set text. \<not> reserved c) \<longrightarrow>
        escape_markdown rt text = text
        \<and> escape_markdown rt (escape_markdown rt text) = escape_markdown rt text)"
proof (intro conjI impI)
  show "escape_markdown rt text =
     concat (map (\<lambda>c. if reserved c then [92, c] else [c]) (html_unescape rt text))"
    by (rule escape_markdown_concat)
next
  assume a: "38 \<notin> set text \<and> (\<forall>c\<in>set text. \<not> reserved c)"
  then show id: "escape_markdown rt text = text"
    by (simp add: escape_markdown_concat html_unescape_no_amp concat_no_reserved)
  then show "escape_markdown rt (escape_markdown rt text) = escape_markdown rt text"
    by simp
qed

text \<open>
  Claim C8, witness: the input \<^verbatim>\<open>a b\<close> has no reserved character and no ampersand and
  is returned unchanged; in \<^verbatim>\<open>a.b\<close> the dot gets one backslash.
\<close>

theorem escape_markdown_decodes_then_escapes_witness:
  "38 \<notin> set (S ''a b'') \<and> filter reserved (S ''a b'') = []
   \<and> escape_markdown sample_tables (S ''a b'') = S ''a b''
   \<and> escape_markdown sample_tables (S ''a.b'') = [97, 92, 46, 98]"
  using escape_markdown_decodes_then_escapes [of sample_tables "S ''a b''"]
    escape_markdown_decodes_then_escapes [of sample_tables "S ''a.b''"]
  by (simp add: S_def reserved_def html_unescape_def)

text \<open>
  Claim C8 as stated fails: the input \<^verbatim>\<open>&gt;\<close> contains no reserved character, its
  escaped form is \<^verbatim>\<open>\>\<close>, and escaping that again gives \<^verbatim>\<open>\\\>\<close>.
\<close>

theorem escape_markdown_not_idempotent_counterexample:
  "filter reserved (S ''&gt;'') = []
   \<and> escape_markdown sample_tables (S ''&gt;'') = [92, 62]
   \<and> escape_markdown sample_tables (escape_markdown sample_tables (S ''&gt;'')) = [92, 92, 92, 62]"
  by code_simp

section \<open>The rendered content\<close>


text \<open>The raw content \<^verbatim>\<open>abc\<close> is rendered as \<^verbatim>\<open>abc\<close>, without a newline.\<close>

lemma content_markdown_abc:
  "feed_content_markdown sample_tables ((new_feed [])\<lparr>content_raw := JStr (S ''abc'')\<rparr>) = Inr (S ''abc'')"
  by (simp add: feed_content_markdown_def render_content_markdown_def feed_content_def shrink_line_val_def ebind_def
      escape_markdown_concat html_unescape_no_amp shrink_line_unfold strip_def isspace_def
      re_sub_nl_step S_def reserved_def ends_with_newline_def)

section \<open>Media file names\<close>



section \<open>The decorator of the resolvers\<close>



section \<open>The freshness window of the cache lookups\<close>

text \<open>The definitions that a run of the article resolver on a concrete world unfolds.\<close>

lemmas read_eval =
  read_parser_def read_body_def read_rx_def
  io_bind_apply log_call_def client_get_def get_or_none_def select_one_def fresh_def now_def
  advance_def require_attr_def new_read_def new_feed_def last_segment_def
  set_mediaurls_def py_str_def read_reply_type_def Let_def feed.defs read.defs
  safe_parser_def try_again_def reply_parser_def reply_body_def reply_query_def
  db_eq_def db_key_def py_int_def int_of_digits_def dec.simps S_def
  escape_markdown_concat html_unescape_no_amp reserved_def
  rx_match_at_def digits_def is_digit_def

text \<open>
  Claim C6 on the code. In \<open>world55\<close> the article cache expires after 10 and the audio
  cache after 100; the cached row of article 55 is 50 old, so it is not within the TTL of
  the article cache. \<^verbatim>\<open>read_parser\<close> filters with \<^verbatim>\<open>audio_cache.timeout\<close>, finds the row
  fresh and links the cached mirror page instead of publishing a new one.
\<close>

theorem read_lookup_uses_audio_timeout:
  "\<not> fresh world55 Read_cache row55 \<and> fresh world55 Audio_cache row55
   \<and> map_sum id (map_sum id extra_markdown)
        (fst (read_parser sample_tables (S ''bilibili.com/read/cv55'') world55))
      = Inr (Inr (JStr (S ''[t](https://telegra.ph/old)'')))"
  by (simp add: read_eval world55_def page55_def row55_def)

section \<open>Memoised properties\<close>

lemma shrink_line_x: "shrink_line [120] = [120]" "shrink_line [121] = [121]" "shrink_line [] = []"
  by (simp_all add: shrink_line_unfold strip_def isspace_def re_sub_nl_step)

text \<open>
  A property declared with \<^verbatim>\<open>cached_property\<close> keeps the value of its first successful
  read as long as the instance keeps the stored entry, whatever else changes.
\<close>

lemma cached_stable:
  "cached d method a h = (Inr v, h1) \<Longrightarrow> dicts h2 a d = dicts h1 a d \<Longrightarrow>
     cached d method a h2 = (Inr v, h2)"
  by (auto simp: cached_def split: option.splits prod.splits sum.splits)

text \<open>
  Claim C2 on the code. The object at address 0 gets the content \<^verbatim>\<open>x\<close> and its
  \<^verbatim>\<open>content\<close> is read: \<^verbatim>\<open>x\<close>. When the raw content is then set to \<^verbatim>\<open>y\<close>, the next read
  is still \<^verbatim>\<open>x\<close>; but when \<^verbatim>\<open>content\<close> of the object at address 1 has been read in
  between, the read gives \<^verbatim>\<open>y\<close>: the single entry of the class-wide cache was taken by
  the other instance.
\<close>

theorem content_recomputed_after_other_instance:
  "fst (get_content 0 (put_content 0 (JStr (S ''x'')) new_heap)) = Inr (S ''x'')
   \<and> fst (get_content 0 (put_content 0 (JStr (S ''y''))
           (snd (get_content 0 (put_content 0 (JStr (S ''x'')) new_heap))))) = Inr (S ''x'')
   \<and> fst (get_content 0 (put_content 0 (JStr (S ''y''))
           (snd (get_content 1 (snd (get_content 0 (put_content 0 (JStr (S ''x'')) new_heap)))))))
       = Inr (S ''y'')"
  by (simp add: get_content_def put_content_def assign_def new_heap_def feed_content_def
      shrink_line_val_def new_feed_def shrink_line_x S_def)

section \<open>The reply-type code of a status update\<close>

text \<open>
  Claim C1, as amended. The reply-type code of a status update is derived from its own
  type code \<^verbatim>\<open>forward_type\<close> (\<^verbatim>\<open>desc.type\<close>), not from \<^verbatim>\<open>origin_type\<close>, by the table
  2 to 11, 16 to 5, 64 to 12, 256 to 14, 8, 512 and 4000 to 4199 to 1, 1, 4, 4200 to 4299
  and 2048 to 2099 to 17, and \<^verbatim>\<open>None\<close> otherwise. Whenever the resolver returns the
  update, the last invocation it made is the comment resolver, with \<^verbatim>\<open>f.oid\<close> and
  exactly that code.
\<close>

theorem reply_type_from_forward_type:
  "(forward_type f = Inr (JInt n) \<longrightarrow>
      reply_type f = Inr
        (if n = 2 then JInt 11
         else if n = 16 then JInt 5
         else if n = 64 then JInt 12
         else if n = 256 then JInt 14
         else if n = 8 \<or> n = 512 \<or> (4000 \<le> n \<and> n < 4200) then JInt 1
         else if n = 1 \<or> n = 4 \<or> (4200 \<le> n \<and> n < 4300) \<or> (2048 \<le> n \<and> n < 2100) then JInt 17
         else JNull))
   \<and> (fst (dynamic_body rt url w) = Inr f \<longrightarrow>
        (\<exists>oi t. oid f = Inr oi \<and> reply_type f = Inr t
           \<and> last (trace (snd (dynamic_body rt url w))) = CallReply oi t))"
proof (intro conjI impI)
  assume "forward_type f = Inr (JInt n)"
  then show "reply_type f = Inr
        (if n = 2 then JInt 11
         else if n = 16 then JInt 5
         else if n = 64 then JInt 12
         else if n = 256 then JInt 14
         else if n = 8 \<or> n = 512 \<or> (4000 \<le> n \<and> n < 4200) then JInt 1
         else if n = 1 \<or> n = 4 \<or> (4200 \<le> n \<and> n < 4300) \<or> (2048 \<le> n \<and> n < 2100) then JInt 17
         else JNull)"
    by (simp add: reply_type_def reply_type_of_def eq_int_def in_range_def as_int_def)
next
  assume "fst (dynamic_body rt url w) = Inr f"
  then show "\<exists>oi t. oid f = Inr oi \<and> reply_type f = Inr t
           \<and> last (trace (snd (dynamic_body rt url w))) = CallReply oi t"
    by (rule dynamic_body_reply)
qed

text \<open>
  Claim C1, witness: the status update 9 of \<open>world0\<close> has type 8; it is resolved, its
  code is 1, and the comment resolver is invoked last, with \<^verbatim>\<open>rid\<close> 90 and code 1.
\<close>

theorem reply_type_from_forward_type_witness:
  "(\<exists>f. fst (dynamic_body sample_tables (S ''t.bilibili.com/9'') world0) = Inr f
        \<and> forward_type f = Inr (JInt 8) \<and> reply_type f = Inr (JInt 1) \<and> oid f = Inr (JInt 90))
   \<and> last (trace (snd (dynamic_body sample_tables (S ''t.bilibili.com/9'') world0)))
       = CallReply (JInt 90) (JInt 1)"
proof -
  obtain r w' where run: "dynamic_body sample_tables (S ''t.bilibili.com/9'') world0 = (r, w')"
    by (cases "dynamic_body sample_tables (S ''t.bilibili.com/9'') world0")
  with dyn9 obtain f where f: "r = Inr f" "detailcontent f = detail 8 0 card7_text 9 90"
    "rid f = JInt 90"
    by (cases r) auto
  have ft: "forward_type f = Inr (JInt 8)" using f(2) by (rule forward_type_detail)
  have o: "oid f = Inr (JInt 90)" using oid_detail [OF f(2)] f(3) by simp
  from reply_type_from_forward_type [of f 8 sample_tables "S ''t.bilibili.com/9''" world0]
    run f(1) ft o
  show ?thesis by auto
qed

text \<open>
  Claim C1 as stated fails. An update of type 256 that forwards nothing has the
  \<^verbatim>\<open>origin_type\<close> 256, which is in the music list, and its code is 14, not 11; a repost
  (type 1) of a video (\<^verbatim>\<open>orig_type\<close> 8) has a video \<^verbatim>\<open>origin_type\<close> and the code 17,
  not 1.
\<close>

theorem reply_type_not_from_origin_type_counterexample:
  "origin_type (update_with (detail 256 0 [123, 125] 1 2)) = Inr (JInt 256)
   \<and> detail_types_list MUSIC (JInt 256)
   \<and> reply_type (update_with (detail 256 0 [123, 125] 1 2)) = Inr (JInt 14)
   \<and> origin_type (update_with (detail 1 8 [123, 125] 1 2)) = Inr (JInt 8)
   \<and> detail_types_list VIDEO (JInt 8)
   \<and> reply_type (update_with (detail 1 8 [123, 125] 1 2)) = Inr (JInt 17)"
  by (simp add: origin_type_detail forward_type_detail update_with_def reply_type_def
      reply_type_of_def eq_int_def in_range_def as_int_def)

section \<open>Status updates without a reply-type code\<close>

text \<open>
  Claim C10. When \<^verbatim>\<open>forward_type\<close> is an integer outside every value the table of
  \<^verbatim>\<open>dynamic.reply_type\<close> lists, the property is \<^verbatim>\<open>None\<close>; and whenever the resolver
  returns such an update, the last invocation it made is the comment resolver, with
  \<^verbatim>\<open>f.oid\<close> and \<^verbatim>\<open>None\<close> as the code.
\<close>

theorem reply_type_none_still_resolves_comments:
  "forward_type f = Inr (JInt n) \<and> n \<notin> {1, 2, 4, 8, 16, 64, 256, 512}
     \<and> \<not> (2048 \<le> n \<and> n < 2100) \<and> \<not> (4000 \<le> n \<and> n < 4300) \<longrightarrow>
   reply_type f = Inr JNull
   \<and> (fst (dynamic_body rt url w) = Inr f \<longrightarrow>
        (\<exists>oi. oid f = Inr oi \<and> last (trace (snd (dynamic_body rt url w))) = CallReply oi JNull))"
proof (intro impI conjI)
  assume a: "forward_type f = Inr (JInt n) \<and> n \<notin> {1, 2, 4, 8, 16, 64, 256, 512}
     \<and> \<not> (2048 \<le> n \<and> n < 2100) \<and> \<not> (4000 \<le> n \<and> n < 4300)"
  then show rt: "reply_type f = Inr JNull"
    by (auto simp: reply_type_def reply_type_of_def eq_int_def in_range_def as_int_def)
  assume "fst (dynamic_body rt url w) = Inr f"
  from dynamic_body_reply [OF this] rt
  show "\<exists>oi. oid f = Inr oi \<and> last (trace (snd (dynamic_body rt url w))) = CallReply oi JNull"
    by auto
qed

text \<open>
  Claim C10, witness: the status update 10 of \<open>world0\<close> has type 2024; it is resolved and
  the comment resolver is invoked with \<^verbatim>\<open>rid\<close> 100 and \<^verbatim>\<open>None\<close>.
\<close>

theorem reply_type_none_still_resolves_comments_witness:
  "(\<exists>f. fst (dynamic_body sample_tables (S ''t.bilibili.com/10'') world0) = Inr f
        \<and> forward_type f = Inr (JInt 2024) \<and> reply_type f = Inr JNull)
   \<and> (2024::int) \<notin> {1, 2, 4, 8, 16, 64, 256, 512}
   \<and> last (trace (snd (dynamic_body sample_tables (S ''t.bilibili.com/10'') world0)))
       = CallReply (JInt 100) JNull"
proof -
  obtain r w' where run: "dynamic_body sample_tables (S ''t.bilibili.com/10'') world0 = (r, w')"
    by (cases "dynamic_body sample_tables (S ''t.bilibili.com/10'') world0")
  with dyn10 obtain f where f: "r = Inr f" "detailcontent f = detail 2024 0 [123, 125] 10 100"
    "rid f = JInt 100"
    by (cases r) auto
  have ft: "forward_type f = Inr (JInt 2024)" using f(2) by (rule forward_type_detail)
  have o: "oid f = Inr (JInt 100)" using oid_detail [OF f(2)] f(3) by simp
  from reply_type_none_still_resolves_comments
    [of f 2024 sample_tables "S ''t.bilibili.com/10''" world0] run f(1) ft o
  show ?thesis by auto
qed

section \<open>Status updates that embed a video\<close>




section \<open>The batch entry point\<close>

text \<open>When \<^verbatim>\<open>asyncio.gather\<close> returns, it returns one result per task.\<close>

lemma gather_length:
  "fst (gather ts w) = Inr xs \<Longrightarrow> length xs = length ts"
proof (induction ts arbitrary: w xs)
  case Nil
  then show ?case by simp
next
  case (Cons t ts)
  then show ?case
    by (auto simp: io_bind_apply split: prod.splits sum.splits) (metis fst_conv)
qed

text \<open>
  Claim C5 on the code. In \<open>world0\<close> the upstream answers the request for the comments
  of video 8 with a body that has no \<^verbatim>\<open>data\<close>; \<^verbatim>\<open>reply_parser\<close> returns the exception
  object, \<^verbatim>\<open>video_parser\<close> stores it as \<^verbatim>\<open>replycontent\<close>, and the debug message of
  \<^verbatim>\<open>biliparser\<close> reads \<^verbatim>\<open>comment_markdown\<close>, which calls \<^verbatim>\<open>.get\<close> on it. The batch of
  the videos 8 and 7 therefore raises \<^verbatim>\<open>AttributeError\<close> and returns no list, although
  video 7 alone is resolved to a feed.
\<close>

theorem batch_fails_when_comments_fail:
  "fst (biliparser sample_tables
          (Many [S ''www.bilibili.com/video/av8'', S ''www.bilibili.com/video/av7'']) world0)
     = Inl AttributeError
   \<and> (\<exists>v. fst (biliparser sample_tables (Many [S ''www.bilibili.com/video/av7'']) world0)
            = Inr [Inr (Video v)])"
  by (simp add: run_defs sample_defs)

end
